theory Spec2Isabelle
  imports Main "HOL-Library.AList"
begin

section \<open>Python values used by the orchestrator\<close>

text \<open>
  Paths are strings; \<open>Path(a, b)\<close> and \<open>a / b\<close> join with a slash. The file system
  (\<open>exists\<close>, \<open>resolve\<close>, \<open>glob\<close>) belongs to the environment, see \<open>env\<close> below.
\<close>

type_synonym path = string

definition path_join :: "path \<Rightarrow> string \<Rightarrow> path" where
  "path_join p s = p @ ''/'' @ s"

text \<open>Truthiness of an optional list or string: \<open>None\<close> and the empty value are false.\<close>

definition truthy :: "'a list option \<Rightarrow> bool" where
  "truthy x = (case x of None \<Rightarrow> False | Some v \<Rightarrow> v \<noteq> [])"

text \<open>\<open>s.startswith(p)\<close> and \<open>sub in s\<close> on strings.\<close>

fun startswith :: "string \<Rightarrow> string \<Rightarrow> bool" where
  "startswith s [] = True"
| "startswith [] (p # ps) = False"
| "startswith (c # cs) (p # ps) = (c = p \<and> startswith cs ps)"

fun contains :: "string \<Rightarrow> string \<Rightarrow> bool" where
  "contains sub [] = (sub = [])"
| "contains sub (c # cs) = (startswith (c # cs) sub \<or> contains sub cs)"

text \<open>
  \<open>s.replace(old, new)\<close>: the occurrences of \<open>old\<close> are replaced from the left and do
  not overlap. The counter of \<open>replace_aux\<close> is the number of characters of a matched
  occurrence that are still to be skipped.
\<close>

fun replace_aux :: "string \<Rightarrow> string \<Rightarrow> nat \<Rightarrow> string \<Rightarrow> string" where
  "replace_aux old new k [] = []"
| "replace_aux old new (Suc k) (c # cs) = replace_aux old new k cs"
| "replace_aux old new 0 (c # cs) =
     (if startswith (c # cs) old then new @ replace_aux old new (length old - 1) cs
      else c # replace_aux old new 0 cs)"

definition replace :: "string \<Rightarrow> string \<Rightarrow> string \<Rightarrow> string" where
  "replace old new s =
     (if old = [] then new @ concat (map (\<lambda>c. c # new) s) else replace_aux old new 0 s)"

text \<open>\<open>s.split(sep)\<close> for a one-character separator: never the empty list.\<close>

fun str_split :: "char \<Rightarrow> string \<Rightarrow> string list" where
  "str_split sep [] = [[]]"
| "str_split sep (c # cs) =
     (if c = sep then [] # str_split sep cs
      else (case str_split sep cs of [] \<Rightarrow> [[c]] | x # xs \<Rightarrow> (c # x) # xs))"

text \<open>\<open>s.split(sep)[0]\<close>.\<close>

definition split_first :: "char \<Rightarrow> string \<Rightarrow> string" where
  "split_first sep s = (case str_split sep s of [] \<Rightarrow> [] | x # xs \<Rightarrow> x)"

text \<open>
  \<open>s.split(sep, 1)\<close>: \<open>None\<close> stands for the one-element list (no separator in \<open>s\<close>),
  \<open>Some (a, b)\<close> for the two-element list.
\<close>

fun split_once :: "char \<Rightarrow> string \<Rightarrow> (string \<times> string) option" where
  "split_once sep [] = None"
| "split_once sep (c # cs) =
     (if c = sep then Some ([], cs)
      else (case split_once sep cs of None \<Rightarrow> None | Some (a, b) \<Rightarrow> Some (c # a, b)))"

text \<open>\<open>sep.join(xs)\<close>, \<open>str(n)\<close> for an integer and \<open>s.capitalize()\<close> (ASCII).\<close>

fun str_join :: "string \<Rightarrow> string list \<Rightarrow> string" where
  "str_join sep [] = []"
| "str_join sep [x] = x"
| "str_join sep (x # y # ys) = x @ sep @ str_join sep (y # ys)"

definition digit_char :: "nat \<Rightarrow> char" where
  "digit_char d = char_of (48 + d)"

function str_nat :: "nat \<Rightarrow> string" where
  "str_nat n = (if n < 10 then [digit_char n] else str_nat (n div 10) @ [digit_char (n mod 10)])"
  by pat_completeness auto
termination
  by (relation "measure id") auto

declare str_nat.simps [simp del]

definition str_int :: "int \<Rightarrow> string" where
  "str_int i = (if i < 0 then CHR ''-'' # str_nat (nat (- i)) else str_nat (nat i))"

definition upper_char :: "char \<Rightarrow> char" where
  "upper_char c =
     (if 97 \<le> (of_char c :: nat) \<and> (of_char c :: nat) \<le> 122 then char_of ((of_char c :: nat) - 32)
      else c)"

definition lower_char :: "char \<Rightarrow> char" where
  "lower_char c =
     (if 65 \<le> (of_char c :: nat) \<and> (of_char c :: nat) \<le> 90 then char_of ((of_char c :: nat) + 32)
      else c)"

definition capitalize :: "string \<Rightarrow> string" where
  "capitalize s = (case s of [] \<Rightarrow> [] | c # cs \<Rightarrow> upper_char c # map lower_char cs)"

text \<open>Tuples of integers compare lexicographically, a proper prefix being smaller.\<close>

fun tuple_less :: "int list \<Rightarrow> int list \<Rightarrow> bool" where
  "tuple_less [] [] = False"
| "tuple_less [] (y # ys) = True"
| "tuple_less (x # xs) [] = False"
| "tuple_less (x # xs) (y # ys) = (if x = y then tuple_less xs ys else x < y)"

text \<open>
  A \<open>dict\<close> is an association list in insertion order: \<open>d[k] = v\<close> is
  \<^const>\<open>AList.update\<close> (replace in place, or append), \<open>d.update(e)\<close> stores the
  entries of \<open>e\<close> in their order, \<open>k in d\<close> looks the key up.
\<close>

type_synonym ('k, 'v) dict = "('k \<times> 'v) list"

definition dict_update :: "('k, 'v) dict \<Rightarrow> ('k, 'v) dict \<Rightarrow> ('k, 'v) dict" where
  "dict_update d e = fold (\<lambda>(k, v) acc. AList.update k v acc) e d"

definition dict_has :: "('k, 'v) dict \<Rightarrow> 'k \<Rightarrow> bool" where
  "dict_has d k = (map_of d k \<noteq> None)"

section \<open>The data model\<close>

text \<open>The parsed command line (\<open>argparse.Namespace\<close>) of \<open>build-llvm.py\<close>.\<close>

record namespace =
  assertions :: bool
  bolt :: bool
  build_folder :: "string option"
  build_stage1_only :: bool
  build_targets :: "string list"
  build_type :: "string option"
  check_targets :: "string list option"
  cspgo :: bool
  defines' :: "string list option"
  full_toolchain :: bool
  install_folder :: "string option"
  install_targets :: "string list option"
  linux_folder :: "string option"
  llvm_folder :: "string option"
  lto :: "string option"
  no_ccache :: bool
  no_update :: bool
  pgo :: "string list option"
  projects :: "string list option"
  quiet_cmake :: bool
  ref :: string
  shallow_clone :: bool
  show_build_commands :: bool
  stage :: "string option"
  targets :: "string list option"
  vendor_string :: string

text \<open>
  The tools of a builder: the host's (\<open>HostTools()\<close>) or those of a stage's \<open>bin\<close>
  folder (\<open>StageTools(bin)\<close>). The other fields hold what the orchestrator assigns to
  attributes of the object; \<open>None\<close> is the value its constructor left.
\<close>

datatype tools_origin = HostTools | StageTools path

record tools =
  origin :: tools_origin
  clang_tblgen :: "path option"
  llvm_tblgen :: "path option"
  llvm_bolt :: "path option"
  merge_fdata :: "path option"
  perf2bolt :: "path option"

definition new_tools :: "tools_origin \<Rightarrow> tools" where
  "new_tools orig =
     \<lparr>origin = orig, clang_tblgen = None, llvm_tblgen = None, llvm_bolt = None,
      merge_fdata = None, perf2bolt = None\<rparr>"

text \<open>The kernel builder (\<open>LLVMKernelBuilder\<close>), used for PGO and BOLT workloads.\<close>

record kernel_builder =
  k_folders_build :: "path option"
  k_folders_source :: "path option"
  k_toolchain_prefix :: "path option"
  k_matrix :: "(string, string list) dict"

text \<open>The LLVM builders: the class of the object and the attributes the orchestrator sets.\<close>

datatype builder_kind =
    LLVMBootstrapBuilder
  | LLVMBuilder
  | LLVMSlimBuilder
  | LLVMInstrumentedBuilder
  | LLVMSlimInstrumentedBuilder
  | LLVMCSPGOInstrumentedBuilder
  | LLVMSlimCSPGOInstrumentedBuilder

record builder =
  b_kind :: builder_kind
  b_show_commands :: bool
  b_quiet_cmake :: bool
  b_folders_source :: "path option"
  b_folders_build :: "path option"
  b_folders_install :: "path option"
  b_cmake_defines :: "(string, string) dict"
  b_tools :: "tools option"
  b_targets :: "string list"
  b_projects :: "string list"
  b_build_targets :: "string list"
  b_check_targets :: "string list option"
  b_install_targets :: "string list option"
  b_ccache :: bool
  b_bolt :: bool
  b_bolt_builder :: "kernel_builder option"

record linux_source_manager =
  location :: "path option"
  patches :: "path list"
  tarball_base_download_url :: "string option"
  tarball_local_location :: "path option"
  tarball_remote_checksum_name :: "string option"

text \<open>
  What the orchestrator takes from its collaborators (\<open>tc_build.llvm\<close>,
  \<open>tc_build.kernel\<close>, \<open>tc_build.tools\<close>, \<open>pathlib\<close>, \<open>platform\<close>), none of which is
  part of the two files modelled here: they are parameters of the model.
\<close>

record env =
  path_exists :: "path \<Rightarrow> bool"
  resolve :: "path \<Rightarrow> path"
  glob_patches :: "path \<Rightarrow> path list"
  lsm_init :: linux_source_manager
  get_version :: "linux_source_manager \<Rightarrow> int list"
  MINIMUM_SUPPORTED_VERSION :: "int list"
  default_targets :: "path \<Rightarrow> string list"
  default_projects :: "path \<Rightarrow> string list"
  validate_targets :: "builder \<Rightarrow> bool"
  can_use_perf :: "builder \<Rightarrow> bool"
  machine :: string
  builder_init :: "builder_kind \<Rightarrow> builder"
  kernel_builder_init :: kernel_builder
  kernel_builder_has_configure :: bool
  host_target :: "builder \<Rightarrow> string"
  host_target_is_enabled :: "builder \<Rightarrow> bool"
  profiles_output_path :: "builder \<Rightarrow> path"
  final_name :: "builder \<Rightarrow> string"

definition new_builder :: "env \<Rightarrow> builder_kind \<Rightarrow> builder" where
  "new_builder e k = (builder_init e k)\<lparr>b_kind := k\<rparr>"

text \<open>The orchestrator object \<open>LLVMStages\<close>.\<close>

record stages =
  args :: namespace
  lsm :: "linux_source_manager option"
  instrumented :: "builder option"
  self_build_folder :: path
  bootstrap_dir :: path
  instrumentation_dir :: path
  cspgo_instrumentation_dir :: path
  profiling_dir :: path
  cspgo_profiling_dir :: path
  final_dir :: path
  self_llvm_folder :: path
  host_tools :: tools
  def_llvm_builder_cls :: builder_kind
  final :: builder
  common_cmake_defines :: "(string, string) dict"

text \<open>
  The effects of a run, in order: what is printed, and every call into a collaborator
  that does work, with a snapshot of the object it is called on.
\<close>

datatype pgo_builder = LLVM builder | Kernel kernel_builder

datatype event =
    PrintHeader string
  | PrintInfo string
  | PrintWarning string
  | PrintDuration
  | Sleep nat
  | LsmPrepare linux_source_manager
  | SourceDownload path string bool
  | SourceUpdate path string
  | ShowCompilerLinker
  | Construct builder_kind
  | ConstructKernel
  | CheckDependencies builder
  | Configure builder
  | Build builder
  | KernelConfigure kernel_builder
  | KernelBuild kernel_builder
  | GenerateProfdata builder
  | ShowInstallInfo builder

text \<open>
  Exceptions are values: the three \<open>RuntimeError\<close>s of the Linux source checks, that of
  the LLVM folder, what \<open>validate_targets\<close> raises, the \<open>ValueError\<close> of \<open>dict()\<close> on a
  define without \<open>=\<close>, the \<open>TypeError\<close> of \<open>x in None\<close>, and \<open>SystemExit\<close> of
  \<open>sys.exit\<close>.
\<close>

datatype error =
    LinuxFolderMissing string
  | LinuxNotKernelTree string
  | LinuxTooOld string string
  | LLVMFolderMissing string
  | InvalidTargets
  | ValueError
  | TypeError
  | SystemExit nat

type_synonym 'a res = "(error + 'a) \<times> event list"

definition bind :: "'a res \<Rightarrow> ('a \<Rightarrow> 'b res) \<Rightarrow> 'b res" where
  "bind m f =
     (case m of
        (Inl e, t) \<Rightarrow> (Inl e, t)
      | (Inr a, t) \<Rightarrow> (case f a of (r, t') \<Rightarrow> (r, t @ t')))"


definition emit :: "event list \<Rightarrow> unit res" where
  "emit evs = (Inr (), evs)"

definition opt_list :: "'a list option \<Rightarrow> 'a list" where
  "opt_list x = (case x of None \<Rightarrow> [] | Some v \<Rightarrow> v)"

section \<open>\<open>LLVMStages.__init__\<close>\<close>

text \<open>
  Lines 52 to 87: the Linux source is validated (a folder the user gave) or prepared (the
  tarball) when BOLT or a PGO benchmark with \<open>kernel\<close> in its name is requested.
\<close>

definition prepare_linux ::
  "env \<Rightarrow> namespace \<Rightarrow> path \<Rightarrow> int list \<Rightarrow> linux_source_manager option res" where
  "prepare_linux e a src_folder kernel_version =
     (if bolt a \<or> (truthy (pgo a) \<and> [x \<leftarrow> opt_list (pgo a). contains ''kernel'' x] \<noteq> []) then
        (if truthy (linux_folder a) then
           (let given = opt_list (linux_folder a);
                folder = resolve e given
            in if \<not> path_exists e folder then (Inl (LinuxFolderMissing given), [])
               else if \<not> path_exists e (path_join folder ''Makefile'') then
                 (Inl (LinuxNotKernelTree given), [])
               else
                 (let lsm1 = (lsm_init e)\<lparr>location := Some folder\<rparr>;
                      linux_version = get_version e lsm1
                  in if tuple_less linux_version (MINIMUM_SUPPORTED_VERSION e) then
                       (Inl (LinuxTooOld (str_join ''.'' (map str_int linux_version))
                               (str_join ''.'' (map str_int (MINIMUM_SUPPORTED_VERSION e)))), [])
                     else (Inr (Some lsm1), [])))
         else
           (let ver_str = str_join ''.'' (map str_int [x \<leftarrow> kernel_version. x \<noteq> 0]);
                loc = path_join src_folder (''linux-'' @ ver_str);
                lsm1 = (lsm_init e)
                  \<lparr>location := Some loc,
                   patches := glob_patches e src_folder,
                   tarball_base_download_url := Some ''https://cdn.kernel.org/pub/linux/kernel/v6.x'',
                   tarball_local_location := Some (loc @ ''.tar.xz''),
                   tarball_remote_checksum_name := Some ''sha256sums.asc''\<rparr>
            in (Inr (Some lsm1),
                [PrintHeader ''Preparing Linux source for profiling runs'', LsmPrepare lsm1])))
      else (Inr None, []))"

text \<open>Lines 90 to 100: the LLVM source folder, its download and update.\<close>

definition prepare_llvm :: "env \<Rightarrow> namespace \<Rightarrow> path \<Rightarrow> path res" where
  "prepare_llvm e a src_folder =
     bind
       (if truthy (llvm_folder a) then
          (let folder = resolve e (opt_list (llvm_folder a))
           in if \<not> path_exists e folder then (Inl (LLVMFolderMissing (opt_list (llvm_folder a))), [])
              else (Inr folder, []))
        else (Inr (path_join src_folder ''llvm-project''), []))
       (\<lambda>folder.
          (Inr folder,
           SourceDownload folder (ref a) (shallow_clone a) #
           (if \<not> (truthy (llvm_folder a) \<or> no_update a) then [SourceUpdate folder (ref a)] else [])))"

text \<open>
  Lines 110 to 130: the class of the default builder, and the final builder with the
  targets and the projects resolved (the user's list, else \<open>all\<close> for a full toolchain,
  else the defaults of the LLVM source).
\<close>

definition default_cls :: "namespace \<Rightarrow> builder_kind" where
  "default_cls a = (if full_toolchain a then LLVMBuilder else LLVMSlimBuilder)"

definition resolved_targets :: "env \<Rightarrow> namespace \<Rightarrow> path \<Rightarrow> string list" where
  "resolved_targets e a folder =
     (if truthy (targets a) then opt_list (targets a)
      else if full_toolchain a then [''all''] else default_targets e folder)"

definition resolved_projects :: "env \<Rightarrow> namespace \<Rightarrow> path \<Rightarrow> string list" where
  "resolved_projects e a folder =
     (if truthy (projects a) then opt_list (projects a)
      else if full_toolchain a then [''all''] else default_projects e folder)"

definition resolve_final :: "env \<Rightarrow> namespace \<Rightarrow> path \<Rightarrow> builder res" where
  "resolve_final e a folder =
     (let final0 = (new_builder e (default_cls a))\<lparr>b_folders_source := Some folder\<rparr>;
          final1 = final0\<lparr>b_targets := resolved_targets e a folder\<rparr>
      in if truthy (targets a) \<and> \<not> validate_targets e final1 then
           (Inl InvalidTargets, [Construct (default_cls a)])
         else (Inr (final1\<lparr>b_projects := resolved_projects e a folder\<rparr>),
               [Construct (default_cls a)]))"

text \<open>Lines 133 to 156: the warnings about BOLT in instrumentation mode.\<close>

definition bolt_warnings :: "env \<Rightarrow> namespace \<Rightarrow> builder \<Rightarrow> path \<Rightarrow> event list" where
  "bolt_warnings e a fin folder =
     (if bolt a \<and> \<not> can_use_perf e fin then
        (let has_4f158995b9cddae =
               path_exists e (path_join folder ''bolt/lib/Passes/ValidateMemRefs.cpp'');
             first = truthy (pgo a) \<and> \<not> assertions a \<and> \<not> has_4f158995b9cddae;
             second = (machine e \<noteq> ''x86_64'');
             warned = (first \<or> second)
         in (if first then
               [PrintWarning ''Using BOLT in instrumentation mode with PGO and no assertions might result in a binary that crashes:'',
                PrintWarning ''https://github.com/llvm/llvm-project/issues/55004'',
                PrintWarning ''Consider adding '--assertions' if there are any failures during the BOLT stage.'']
             else []) @
            (if second then
               [PrintWarning ''Using BOLT in instrumentation mode may not work on non-x86_64 machines:'',
                PrintWarning ''https://github.com/llvm/llvm-project/issues/55005'',
                PrintWarning ''Consider dropping '--bolt' if there are any failures during the BOLT stage.'']
             else []) @
            (if warned then
               [PrintWarning ''Continuing in 5 seconds, hit Ctrl-C to cancel...'', Sleep 5]
             else []))
      else [])"

text \<open>
  Lines 159 to 167: the defines common to every cmake invocation. \<open>dict(...)\<close> of the
  user's \<open>KEY=VALUE\<close> strings raises \<open>ValueError\<close> at one without \<open>=\<close>.
\<close>

fun dict_of_defines :: "string list \<Rightarrow> (string, string) dict \<Rightarrow> (string, string) dict option" where
  "dict_of_defines [] acc = Some acc"
| "dict_of_defines (d # ds) acc =
     (case split_once CHR ''='' d of
        None \<Rightarrow> None
      | Some (k, v) \<Rightarrow> dict_of_defines ds (AList.update k v acc))"

definition initial_defines :: "namespace \<Rightarrow> (string, string) dict" where
  "initial_defines a =
     (let d0 = [];
          d1 = (if assertions a then AList.update ''LLVM_ENABLE_ASSERTIONS'' ''ON'' d0 else d0)
      in if vendor_string a \<noteq> [] then
           AList.update ''LLD_VENDOR'' (vendor_string a)
             (AList.update ''CLANG_VENDOR'' (vendor_string a) d1)
         else d1)"

definition compute_common_defines :: "namespace \<Rightarrow> error + (string, string) dict" where
  "compute_common_defines a =
     (if truthy (defines' a) then
        (case dict_of_defines (opt_list (defines' a)) [] of
           None \<Rightarrow> Inl ValueError
         | Some d \<Rightarrow> Inr (dict_update (initial_defines a) d))
      else Inr (initial_defines a))"

definition LLVMStages_init ::
  "env \<Rightarrow> namespace \<Rightarrow> path \<Rightarrow> path \<Rightarrow> int list \<Rightarrow> stages res" where
  "LLVMStages_init e a src_folder bf kernel_version =
     bind (prepare_linux e a src_folder kernel_version) (\<lambda>lsm1.
     bind (prepare_llvm e a src_folder) (\<lambda>folder.
     bind (emit [PrintHeader ''Checking CC and LD'', ShowCompilerLinker]) (\<lambda>_.
     bind (resolve_final e a folder) (\<lambda>fin.
     bind (emit (bolt_warnings e a fin folder)) (\<lambda>_.
     bind (compute_common_defines a, []) (\<lambda>common.
       (Inr \<lparr>args = a, lsm = lsm1, instrumented = None, self_build_folder = bf,
             bootstrap_dir = path_join bf ''bootstrap'',
             instrumentation_dir = path_join bf ''instrumentation'',
             cspgo_instrumentation_dir = path_join bf ''cspgo_instrumentation'',
             profiling_dir = path_join bf ''profiling'',
             cspgo_profiling_dir = path_join bf ''cspgo_profiling'',
             final_dir = path_join bf ''final'',
             self_llvm_folder = folder,
             host_tools = new_tools HostTools,
             def_llvm_builder_cls = default_cls a,
             final = fin,
             common_cmake_defines = common\<rparr>, [])))))))"

section \<open>The stage operations\<close>

text \<open>
  \<open>configure_llvm_builder\<close> (lines 169 to 182). With a tools folder the instance gets
  the tools of that stage and the final builder's targets and projects; without one, the
  host's tools.
\<close>

definition configure_llvm_builder :: "stages \<Rightarrow> builder \<Rightarrow> path \<Rightarrow> path option \<Rightarrow> builder" where
  "configure_llvm_builder self instance builddir tools_dir =
     (let instance1 = instance
            \<lparr>b_show_commands := show_build_commands (args self),
             b_quiet_cmake := quiet_cmake (args self),
             b_folders_source := Some (self_llvm_folder self),
             b_folders_build := Some builddir,
             b_cmake_defines := dict_update (b_cmake_defines instance) (common_cmake_defines self)\<rparr>
      in case tools_dir of
           Some t \<Rightarrow>
             instance1
               \<lparr>b_tools := Some (new_tools (StageTools (path_join t ''bin''))),
                b_targets := b_targets (final self),
                b_projects := b_projects (final self)\<rparr>
         | None \<Rightarrow> instance1\<lparr>b_tools := Some (host_tools self)\<rparr>)"

text \<open>
  The decorator \<open>build_stage\<close> (lines 21 to 32): the header, the stage, and in
  single-stage mode the notice and \<open>sys.exit(0)\<close>.
\<close>

definition build_stage :: "string \<Rightarrow> (stages \<Rightarrow> stages res) \<Rightarrow> stages \<Rightarrow> stages res" where
  "build_stage title func self =
     bind (emit [PrintHeader title]) (\<lambda>_.
     bind (func self) (\<lambda>self1.
       if truthy (stage (args self1)) then
         (Inl (SystemExit 0), [PrintInfo (title @ '' done.'')])
       else (Inr self1, [])))"

definition bootstrap_builder :: "env \<Rightarrow> stages \<Rightarrow> builder" where
  "bootstrap_builder e self =
     (let b0 = (new_builder e LLVMBootstrapBuilder)
            \<lparr>b_build_targets := [''distribution''], b_ccache := \<not> no_ccache (args self)\<rparr>;
          b1 = configure_llvm_builder self b0 (bootstrap_dir self) None;
          b2 = (if bolt (args self) then b1\<lparr>b_projects := b_projects b1 @ [''bolt'']\<rparr> else b1)
      in if truthy (pgo (args self)) then b2\<lparr>b_projects := b_projects b2 @ [''compiler-rt'']\<rparr>
         else b2)"

definition bootstrap_body :: "env \<Rightarrow> stages \<Rightarrow> stages res" where
  "bootstrap_body e self =
     (let b = bootstrap_builder e self
      in (Inr self, [Construct LLVMBootstrapBuilder, CheckDependencies b, Configure b, Build b]))"

definition bootstrap :: "env \<Rightarrow> stages \<Rightarrow> stages res" where
  "bootstrap e self = build_stage ''Building LLVM (bootstrap)'' (bootstrap_body e) self"

text \<open>\<open>update_defines\<close> (lines 199 to 209).\<close>

definition update_defines :: "stages \<Rightarrow> stages" where
  "update_defines self =
     (let c_flag_defines = [''CMAKE_C_FLAGS'', ''CMAKE_CXX_FLAGS''];
          d1 = fold (\<lambda>define d. if \<not> dict_has d define then AList.update define [] d else d)
                 c_flag_defines (common_cmake_defines self);
          d2 = (if truthy (build_type (args self)) then
                  AList.update ''CMAKE_BUILD_TYPE'' (opt_list (build_type (args self))) d1
                else d1)
      in self\<lparr>common_cmake_defines := d2\<rparr>)"

text \<open>
  \<open>setup_instrumentation\<close> (lines 211 to 224): \<open>choices[cspgo][full_toolchain]\<close>, and
  \<open>'llvm' in self.args.pgo\<close>, a \<open>TypeError\<close> when \<open>pgo\<close> is \<open>None\<close>.
\<close>

definition instrumented_cls :: "bool \<Rightarrow> bool \<Rightarrow> builder_kind" where
  "instrumented_cls cspgo1 full =
     (if cspgo1 then (if full then LLVMCSPGOInstrumentedBuilder else LLVMSlimCSPGOInstrumentedBuilder)
      else (if full then LLVMInstrumentedBuilder else LLVMSlimInstrumentedBuilder))"

definition instrumented_builder :: "env \<Rightarrow> stages \<Rightarrow> bool \<Rightarrow> string list \<Rightarrow> builder" where
  "instrumented_builder e self cspgo1 p =
     (let i0 = (new_builder e (instrumented_cls cspgo1 (full_toolchain (args self))))
            \<lparr>b_build_targets := [if full_toolchain (args self) then ''all'' else ''distribution''],
             b_check_targets := (if ''llvm'' \<in> set p then check_targets (args self) else Some [])\<rparr>;
          dir = (if cspgo1 then cspgo_instrumentation_dir self else instrumentation_dir self)
      in configure_llvm_builder self i0 dir (Some (bootstrap_dir self)))"

definition setup_instrumentation :: "env \<Rightarrow> stages \<Rightarrow> bool \<Rightarrow> builder res" where
  "setup_instrumentation e self cspgo1 =
     (case pgo (args self) of
        None \<Rightarrow> (Inl TypeError, [Construct (instrumented_cls cspgo1 (full_toolchain (args self)))])
      | Some p \<Rightarrow>
          (Inr (instrumented_builder e self cspgo1 p),
           [Construct (instrumented_cls cspgo1 (full_toolchain (args self)))]))"

definition instrumentation_body :: "env \<Rightarrow> bool \<Rightarrow> stages \<Rightarrow> stages res" where
  "instrumentation_body e cspgo1 self =
     bind (setup_instrumentation e self cspgo1) (\<lambda>b.
       (Inr (self\<lparr>instrumented := Some b\<rparr>), [Configure b, Build b]))"

definition instrumentation :: "env \<Rightarrow> stages \<Rightarrow> bool \<Rightarrow> stages res" where
  "instrumentation e self cspgo1 =
     build_stage ''Building LLVM (instrumented)'' (instrumentation_body e cspgo1) self"

subsection \<open>\<open>profiling\<close> (lines 232 to 315)\<close>

text \<open>
  Lines 258 to 267. \<open>for pgo_target in pgo_targets\<close> runs over the list by position
  while the body removes from it: the iterator's index \<open>i\<close> is compared with the
  current length at every step, and \<open>list.remove\<close> deletes the first occurrence.
\<close>

definition kernel_pgo_targets :: "string list \<Rightarrow> string list" where
  "kernel_pgo_targets p = map (replace ''kernel-'' []) (filter (contains ''kernel-'') p)"

definition both_warning :: "string \<Rightarrow> event" where
  "both_warning config_target =
     PrintWarning (''Both full and slim were specified for '' @ config_target @ '', ignoring full...'')"

function reconcile_loop :: "nat \<Rightarrow> string list \<Rightarrow> event list \<Rightarrow> string list \<times> event list" where
  "reconcile_loop i pgo_targets warnings =
     (if i < length pgo_targets then
        (if \<not> contains ''slim'' (pgo_targets ! i) then reconcile_loop (Suc i) pgo_targets warnings
         else if split_first CHR ''-'' (pgo_targets ! i) \<in> set pgo_targets then
           reconcile_loop (Suc i)
             (remove1 (split_first CHR ''-'' (pgo_targets ! i)) pgo_targets)
             (warnings @ [both_warning (split_first CHR ''-'' (pgo_targets ! i))])
         else reconcile_loop (Suc i) pgo_targets warnings)
      else (pgo_targets, warnings))"
  by pat_completeness auto
termination
  by (relation "measure (\<lambda>(i, pgo_targets, warnings). length pgo_targets - i)")
     (auto simp: length_remove1)

declare reconcile_loop.simps [simp del]

definition reconcile :: "string list \<Rightarrow> string list \<times> event list" where
  "reconcile pgo_targets = reconcile_loop 0 pgo_targets []"

text \<open>
  Lines 274 to 305: the LLVM targets of one kernel configuration. An item of two parts
  is a slim one.
\<close>

definition llvm_targets_for :: "env \<Rightarrow> stages \<Rightarrow> builder \<Rightarrow> string \<Rightarrow> string list" where
  "llvm_targets_for e self instrumented1 item =
     (if length (str_split CHR ''-'' item) = 2 then
        (if host_target_is_enabled e instrumented1 then [host_target e instrumented1]
         else take 1 (b_targets (final self)))
      else if ''all'' \<in> set (b_targets (final self)) then default_targets e (self_llvm_folder self)
      else b_targets (final self))"

definition fill_matrix ::
  "env \<Rightarrow> stages \<Rightarrow> builder \<Rightarrow> string list \<Rightarrow> (string, string list) dict \<Rightarrow> (string, string list) dict" where
  "fill_matrix e self instrumented1 items m =
     fold (\<lambda>item acc. AList.update (split_first CHR ''-'' item)
                        (llvm_targets_for e self instrumented1 item) acc) items m"

definition pgo_kernel_builder :: "env \<Rightarrow> stages \<Rightarrow> builder \<Rightarrow> path \<Rightarrow> string list \<Rightarrow> kernel_builder" where
  "pgo_kernel_builder e self instrumented1 instrumentation_dir1 pgo_targets =
     (let k0 = (kernel_builder_init e)
            \<lparr>k_folders_build := Some (path_join (self_build_folder self) ''linux''),
             k_folders_source := (case lsm self of None \<Rightarrow> None | Some l \<Rightarrow> location l),
             k_toolchain_prefix := Some instrumentation_dir1\<rparr>
      in k0\<lparr>k_matrix := fill_matrix e self instrumented1 pgo_targets (k_matrix k0)\<rparr>)"

text \<open>Lines 243 to 254: the builder of the \<open>llvm\<close> benchmark.\<close>

definition pgo_llvm_builder :: "env \<Rightarrow> stages \<Rightarrow> path \<Rightarrow> path \<Rightarrow> builder" where
  "pgo_llvm_builder e self profiling_dir1 instrumentation_dir1 =
     (let b = configure_llvm_builder self (new_builder e (def_llvm_builder_cls self))
                profiling_dir1 (Some instrumentation_dir1)
      in case b_tools b of
           Some t \<Rightarrow>
             (if \<not> full_toolchain (args self) then
                b\<lparr>b_tools := Some (t\<lparr>clang_tblgen := Some (path_join (bootstrap_dir self) ''bin/clang-tblgen''),
                                     llvm_tblgen := Some (path_join (bootstrap_dir self) ''bin/llvm-tblgen'')\<rparr>)\<rparr>
              else b)
         | None \<Rightarrow> b)"

text \<open>Lines 309 to 313: only a builder with a \<open>configure\<close> method is configured.\<close>

fun run_pgo_builder :: "env \<Rightarrow> pgo_builder \<Rightarrow> event list" where
  "run_pgo_builder e (LLVM b) =
     [PrintInfo ''Building LLVM for profiling...'', Configure b, Build b]"
| "run_pgo_builder e (Kernel k) =
     (if kernel_builder_has_configure e then
        [PrintInfo ''Building LLVM for profiling...'', KernelConfigure k, KernelBuild k]
      else [KernelBuild k])"

text \<open>
  The instrumented builder of \<open>profiling\<close> (lines 234 to 236): the retained one, or a
  new one.
\<close>

definition profiling_instrumented :: "env \<Rightarrow> stages \<Rightarrow> bool \<Rightarrow> builder res" where
  "profiling_instrumented e self cspgo1 =
     (case instrumented self of
        Some b \<Rightarrow> (Inr b, [])
      | None \<Rightarrow> setup_instrumentation e self cspgo1)"

definition profiling_workloads :: "env \<Rightarrow> stages \<Rightarrow> bool \<Rightarrow> builder \<Rightarrow> string list \<Rightarrow> event list" where
  "profiling_workloads e self cspgo1 instrumented1 p =
     (let profiling_dir1 = (if cspgo1 then cspgo_profiling_dir self else profiling_dir self);
          instrumentation_dir1 =
            (if cspgo1 then cspgo_instrumentation_dir self else instrumentation_dir self);
          llvm_part =
            (if ''llvm'' \<in> set p then
               [LLVM (pgo_llvm_builder e self profiling_dir1 instrumentation_dir1)]
             else []);
          pgo_targets = fst (reconcile (kernel_pgo_targets p));
          warnings = snd (reconcile (kernel_pgo_targets p));
          kernel_part =
            (if pgo_targets \<noteq> [] then
               [Kernel (pgo_kernel_builder e self instrumented1 instrumentation_dir1 pgo_targets)]
             else [])
      in (if ''llvm'' \<in> set p then [Construct (def_llvm_builder_cls self)] else []) @
         warnings @
         (if pgo_targets \<noteq> [] then [ConstructKernel] else []) @
         concat (map (run_pgo_builder e) (llvm_part @ kernel_part)))"

definition profiling_body :: "env \<Rightarrow> bool \<Rightarrow> stages \<Rightarrow> stages res" where
  "profiling_body e cspgo1 self =
     bind (profiling_instrumented e self cspgo1) (\<lambda>instrumented1.
       case pgo (args self) of
         None \<Rightarrow> (Inl TypeError, [])
       | Some p \<Rightarrow>
           (Inr self,
            profiling_workloads e self cspgo1 instrumented1 p @ [GenerateProfdata instrumented1]))"

definition profiling :: "env \<Rightarrow> stages \<Rightarrow> bool \<Rightarrow> stages res" where
  "profiling e self cspgo1 =
     build_stage ''Generating PGO profiles'' (profiling_body e cspgo1) self"

subsection \<open>\<open>final_step\<close> (lines 317 to 368)\<close>

text \<open>
  Lines 339 to 353, for a run that skipped bootstrapping. \<open>final.projects\<close> is the list
  object that \<open>__init__\<close> took from \<open>args.projects\<close> (when the user gave one) and that
  \<open>configure_llvm_builder\<close> handed to the instrumented builder, so \<open>append\<close> is seen
  through all of them; \<open>final.tools\<close> is the object \<open>self.host_tools\<close>.
\<close>

definition append_bolt_project :: "stages \<Rightarrow> builder \<Rightarrow> stages \<times> builder" where
  "append_bolt_project self fin =
     (let ps = b_projects fin @ [''bolt'']
      in (self\<lparr>args := (if truthy (projects (args self)) then (args self)\<lparr>projects := Some ps\<rparr>
                        else args self),
                instrumented := map_option (\<lambda>i. i\<lparr>b_projects := ps\<rparr>) (instrumented self)\<rparr>,
          fin\<lparr>b_projects := ps\<rparr>))"

definition stage1_only_setup :: "stages \<Rightarrow> builder \<Rightarrow> stages \<times> builder \<times> event list" where
  "stage1_only_setup self fin =
     (if build_stage1_only (args self) then
        (let fin1 = fin\<lparr>b_ccache := \<not> no_ccache (args self), b_tools := Some (host_tools self)\<rparr>
         in if bolt (args self) then
              (let (self1, fin2) =
                     (if \<not> (''all'' \<in> set (b_projects fin1) \<or> ''bolt'' \<in> set (b_projects fin1)) then
                        append_bolt_project self fin1
                      else (self, fin1));
                   ht = (host_tools self)
                     \<lparr>llvm_bolt := Some (path_join (final_dir self) ''bin/llvm-bolt''),
                      merge_fdata := Some (path_join (final_dir self) ''bin/merge-fdata''),
                      perf2bolt := Some (path_join (final_dir self) ''bin/perf2bolt'')\<rparr>
               in (self1\<lparr>host_tools := ht\<rparr>, fin2\<lparr>b_tools := Some ht\<rparr>, [CheckDependencies fin]))
            else (self, fin1, [CheckDependencies fin]))
      else (self, fin, []))"

text \<open>Lines 355 to 364: the kernel builder of the BOLT profile, with one LLVM target.\<close>

definition bolt_llvm_targets :: "env \<Rightarrow> builder \<Rightarrow> string list" where
  "bolt_llvm_targets e fin =
     (if host_target_is_enabled e fin then [host_target e fin] else take 1 (b_targets fin))"

definition bolt_setup :: "env \<Rightarrow> stages \<Rightarrow> builder \<Rightarrow> builder \<times> event list" where
  "bolt_setup e self fin =
     (if bolt (args self) then
        (let k0 = (kernel_builder_init e)
               \<lparr>k_folders_build := Some (path_join (self_build_folder self) ''linux''),
                k_folders_source := (case lsm self of None \<Rightarrow> None | Some l \<Rightarrow> location l)\<rparr>;
             fin1 = fin\<lparr>b_bolt := True, b_bolt_builder := Some k0\<rparr>;
             llvm_targets = bolt_llvm_targets e fin1
         in (fin1\<lparr>b_bolt_builder :=
                    Some (k0\<lparr>k_matrix := AList.update ''defconfig'' llvm_targets (k_matrix k0)\<rparr>)\<rparr>,
             [ConstructKernel]))
      else (fin, []))"

text \<open>Lines 319 to 337: the final builder's attributes, tools, LTO and the PGO profile.\<close>

definition final_configured :: "env \<Rightarrow> stages \<Rightarrow> builder" where
  "final_configured e self =
     (let a = args self;
          f1 = (final self)
            \<lparr>b_build_targets := build_targets a,
             b_check_targets := check_targets a,
             b_folders_install :=
               (if truthy (install_folder a) then Some (resolve e (opt_list (install_folder a)))
                else None),
             b_install_targets := install_targets a\<rparr>;
          f2 = configure_llvm_builder (self\<lparr>final := f1\<rparr>) f1 (final_dir self)
                 (Some (bootstrap_dir self));
          f3 = (if truthy (lto a) then
                  f2\<lparr>b_cmake_defines :=
                       AList.update ''LLVM_ENABLE_LTO'' (capitalize (opt_list (lto a)))
                         (b_cmake_defines f2)\<rparr>
                else f2)
      in case instrumented self of
           Some i \<Rightarrow>
             (if truthy (pgo a) \<and> b_folders_build i \<noteq> None then
                f3\<lparr>b_cmake_defines :=
                     AList.update ''LLVM_PROFDATA_FILE''
                       (path_join (profiles_output_path e i) (final_name e i)) (b_cmake_defines f3)\<rparr>
              else f3)
         | None \<Rightarrow> f3)"

definition final_step_state :: "env \<Rightarrow> stages \<Rightarrow> stages" where
  "final_step_state e self =
     (case stage1_only_setup self (final_configured e self) of
        (self1, f1, ev1) \<Rightarrow> self1\<lparr>final := fst (bolt_setup e self1 f1)\<rparr>)"

definition final_step_events :: "env \<Rightarrow> stages \<Rightarrow> event list" where
  "final_step_events e self =
     (case stage1_only_setup self (final_configured e self) of
        (self1, f1, ev1) \<Rightarrow>
          (case bolt_setup e self1 f1 of
             (f2, ev2) \<Rightarrow> ev1 @ ev2 @ [Configure f2, Build f2, ShowInstallInfo f2]))"

definition final_step_body :: "env \<Rightarrow> stages \<Rightarrow> stages res" where
  "final_step_body e self = (Inr (final_step_state e self), final_step_events e self)"

definition final_step :: "env \<Rightarrow> stages \<Rightarrow> stages res" where
  "final_step e self = build_stage ''Building LLVM (final)'' (final_step_body e) self"

section \<open>The script \<open>build-llvm.py\<close> (lines 478 to 515)\<close>

text \<open>
  The values that the parser accepts for \<open>--pgo\<close> (lines 343 to 351). With
  \<open>nargs='+'\<close> the option takes one value or more, in any order, and a value may be
  repeated.
\<close>

definition pgo_choices :: "string list" where
  "pgo_choices =
     [''kernel-defconfig'', ''kernel-allmodconfig'', ''kernel-allyesconfig'',
      ''kernel-defconfig-slim'', ''kernel-allmodconfig-slim'', ''kernel-allyesconfig-slim'',
      ''llvm'']"

definition DEFAULT_KERNEL_FOR_PGO :: "int list" where
  "DEFAULT_KERNEL_FOR_PGO = [6, 11, 0]"

definition skip :: "stages \<Rightarrow> stages res" where
  "skip s = (Inr s, [])"

text \<open>Lines 498 to 508: the PGO and CSPGO stages.\<close>

definition pgo_stages :: "env \<Rightarrow> stages \<Rightarrow> stages res" where
  "pgo_stages e s0 =
     (if truthy (pgo (args s0)) then
        bind (if \<not> truthy (stage (args s0)) \<or> stage (args s0) = Some ''instrumentation''
              then instrumentation e s0 False else skip s0) (\<lambda>s1.
        bind (if \<not> truthy (stage (args s1)) \<or> stage (args s1) = Some ''profiling''
              then profiling e s1 False else skip s1) (\<lambda>s2.
          if cspgo (args s2) then
            bind (if \<not> truthy (stage (args s2)) \<or> stage (args s2) = Some ''csinstrumentation''
                  then instrumentation e s2 True else skip s2) (\<lambda>s3.
              if \<not> truthy (stage (args s3)) \<or> stage (args s3) = Some ''csprofiling''
              then profiling e s3 True else skip s3)
          else skip s2))
      else skip s0)"

text \<open>Lines 509 to 513: the final build.\<close>

definition final_stage :: "env \<Rightarrow> stages \<Rightarrow> stages res" where
  "final_stage e s0 =
     (if \<not> truthy (stage (args s0)) \<or> stage (args s0) = Some ''final'' then
        bind (if truthy (pgo (args s0)) \<and> instrumented s0 = None then
                bind (setup_instrumentation e s0 (cspgo (args s0)))
                  (\<lambda>b. skip (s0\<lparr>instrumented := Some b\<rparr>))
              else skip s0)
          (final_step e)
      else skip s0)"

text \<open>Lines 493 to 515: everything after the orchestrator is constructed.\<close>

definition run_stages :: "env \<Rightarrow> stages \<Rightarrow> unit res" where
  "run_stages e s0 =
     bind (if \<not> build_stage1_only (args s0) \<and>
              (\<not> truthy (stage (args s0)) \<or> stage (args s0) = Some ''bootstrap'')
           then bootstrap e s0 else skip s0) (\<lambda>s1.
     bind (skip (update_defines s1)) (\<lambda>s2.
     bind (pgo_stages e s2) (\<lambda>s3.
     bind (final_stage e s3) (\<lambda>s4. emit [PrintDuration]))))"

definition build_llvm :: "env \<Rightarrow> namespace \<Rightarrow> path \<Rightarrow> unit res" where
  "build_llvm e a tc_build_folder =
     (let src_folder = path_join tc_build_folder ''src'';
          bf = (if truthy (build_folder a) then resolve e (opt_list (build_folder a))
                else path_join tc_build_folder ''build/llvm'')
      in bind (LLVMStages_init e a src_folder bf DEFAULT_KERNEL_FOR_PGO) (run_stages e))"

section \<open>Observations on a run\<close>

text \<open>
  Every stage operation prints its title first, and nothing else prints one of these
  four titles: the stage headers of a trace count the stage operations that were
  invoked. Both instrumentation stages share a title, and so do both profiling stages.
\<close>

definition stage_titles :: "string list" where
  "stage_titles =
     [''Building LLVM (bootstrap)'', ''Building LLVM (instrumented)'',
      ''Generating PGO profiles'', ''Building LLVM (final)'']"

fun is_stage_header :: "event \<Rightarrow> bool" where
  "is_stage_header (PrintHeader t) = (t \<in> set stage_titles)"
| "is_stage_header ev = False"

definition stage_count :: "event list \<Rightarrow> nat" where
  "stage_count t = length (filter is_stage_header t)"

text \<open>The title of the stage that \<open>--stage\<close> names.\<close>

definition title_of_stage :: "string \<Rightarrow> string" where
  "title_of_stage n =
     (if n = ''bootstrap'' then ''Building LLVM (bootstrap)''
      else if n = ''instrumentation'' \<or> n = ''csinstrumentation'' then ''Building LLVM (instrumented)''
      else if n = ''profiling'' \<or> n = ''csprofiling'' then ''Generating PGO profiles''
      else ''Building LLVM (final)'')"

definition stage_names :: "string list" where
  "stage_names =
     [''bootstrap'', ''instrumentation'', ''profiling'', ''csinstrumentation'', ''csprofiling'',
      ''final'']"

text \<open>
  Whether the script reaches the call of the stage that \<open>--stage\<close> names (the guards of
  lines 493 to 509).
\<close>

definition stage_enabled :: "namespace \<Rightarrow> string \<Rightarrow> bool" where
  "stage_enabled a n =
     (if n = ''bootstrap'' then \<not> build_stage1_only a
      else if n = ''instrumentation'' \<or> n = ''profiling'' then truthy (pgo a)
      else if n = ''csinstrumentation'' \<or> n = ''csprofiling'' then truthy (pgo a) \<and> cspgo a
      else n = ''final'')"

text \<open>
  The call that each of the six names stands for in the script: the two context-sensitive
  names are \<open>instrumentation\<close> and \<open>profiling\<close> called with \<open>cspgo=True\<close> (lines 506
  and 508), the two plain ones the same methods with the default \<open>cspgo=False\<close>.
\<close>

definition stage_operation :: "env \<Rightarrow> stages \<Rightarrow> string \<Rightarrow> stages res" where
  "stage_operation e s n =
     (if n = ''bootstrap'' then bootstrap e s
      else if n = ''instrumentation'' then instrumentation e s False
      else if n = ''profiling'' then profiling e s False
      else if n = ''csinstrumentation'' then instrumentation e s True
      else if n = ''csprofiling'' then profiling e s True
      else final_step e s)"

text \<open>The classes of the instrumented builders, plain and context sensitive.\<close>

fun is_cspgo_kind :: "builder_kind \<Rightarrow> bool" where
  "is_cspgo_kind LLVMCSPGOInstrumentedBuilder = True"
| "is_cspgo_kind LLVMSlimCSPGOInstrumentedBuilder = True"
| "is_cspgo_kind k = False"

fun is_plain_instrumented_kind :: "builder_kind \<Rightarrow> bool" where
  "is_plain_instrumented_kind LLVMInstrumentedBuilder = True"
| "is_plain_instrumented_kind LLVMSlimInstrumentedBuilder = True"
| "is_plain_instrumented_kind k = False"

text \<open>
  A monitor for the order of the two instrumentation stages: reading the trace from the
  left, \<open>seen\<close> records that a plain instrumented builder has been built, and every
  \<open>configure\<close> or \<open>build\<close> of a context-sensitive one must find it set.
\<close>

fun cs_after_plain :: "bool \<Rightarrow> event list \<Rightarrow> bool" where
  "cs_after_plain seen [] = True"
| "cs_after_plain seen (Configure b # evs) =
     ((if is_cspgo_kind (b_kind b) then seen else True) \<and> cs_after_plain seen evs)"
| "cs_after_plain seen (Build b # evs) =
     ((if is_cspgo_kind (b_kind b) then seen else True) \<and>
      cs_after_plain (seen \<or> is_plain_instrumented_kind (b_kind b)) evs)"
| "cs_after_plain seen (ev # evs) = cs_after_plain seen evs"

text \<open>What each \<open>configure\<close> of an LLVM builder in a trace was called on.\<close>

fun configured :: "event list \<Rightarrow> builder list" where
  "configured [] = []"
| "configured (Configure b # evs) = b # configured evs"
| "configured (ev # evs) = configured evs"

section \<open>A concrete environment and command line\<close>

text \<open>
  The collaborators as the repository's other modules behave on an x86-64 host with a
  Linux tree at \<open>/linux\<close>, and the defaults of the argument parser.
\<close>

definition ex_builder :: "builder_kind \<Rightarrow> builder" where
  "ex_builder k =
     \<lparr>b_kind = k, b_show_commands = False, b_quiet_cmake = False, b_folders_source = None,
      b_folders_build = None, b_folders_install = None, b_cmake_defines = [], b_tools = None,
      b_targets = [], b_projects = (if k = LLVMBootstrapBuilder then [''clang'', ''lld''] else []),
      b_build_targets = [''all''], b_check_targets = None, b_install_targets = None,
      b_ccache = False, b_bolt = False, b_bolt_builder = None\<rparr>"

definition ex_env :: env where
  "ex_env =
     \<lparr>path_exists = (\<lambda>p. p \<in> set [''/linux'', ''/linux/Makefile'']),
      resolve = (\<lambda>p. p),
      glob_patches = (\<lambda>p. []),
      lsm_init = \<lparr>location = None, patches = [], tarball_base_download_url = None,
                  tarball_local_location = None, tarball_remote_checksum_name = None\<rparr>,
      get_version = (\<lambda>l. [6, 12, 0]),
      MINIMUM_SUPPORTED_VERSION = [5, 10, 0],
      default_targets = (\<lambda>p. [''AArch64'', ''ARM'', ''X86'']),
      default_projects = (\<lambda>p. [''clang'', ''lld'']),
      validate_targets = (\<lambda>b. True),
      can_use_perf = (\<lambda>b. True),
      machine = ''x86_64'',
      builder_init = ex_builder,
      kernel_builder_init = \<lparr>k_folders_build = None, k_folders_source = None,
                             k_toolchain_prefix = None, k_matrix = []\<rparr>,
      kernel_builder_has_configure = False,
      host_target = (\<lambda>b. ''X86''),
      host_target_is_enabled = (\<lambda>b. ''all'' \<in> set (b_targets b) \<or> ''X86'' \<in> set (b_targets b)),
      profiles_output_path = (\<lambda>b. path_join (opt_list (b_folders_build b)) ''profiles''),
      final_name = (\<lambda>b. ''final.profdata'')\<rparr>"

definition ex_args :: namespace where
  "ex_args =
     \<lparr>assertions = False, bolt = False, build_folder = None, build_stage1_only = False,
      build_targets = [''all''], build_type = None, check_targets = None, cspgo = False,
      defines' = None, full_toolchain = False, install_folder = None, install_targets = None,
      linux_folder = None, llvm_folder = None, lto = None, no_ccache = False,
      no_update = False, pgo = None, projects = None, quiet_cmake = False, ref = ''main'',
      shallow_clone = False, show_build_commands = False, stage = None, targets = None,
      vendor_string = ''ClangBuiltLinux''\<rparr>"

text \<open>The orchestrator that \<open>__init__\<close> builds from them, with build folder \<open>/b\<close>.\<close>

definition ex_stages :: "namespace \<Rightarrow> stages" where
  "ex_stages a =
     (case fst (LLVMStages_init ex_env a ''/src'' ''/b'' DEFAULT_KERNEL_FOR_PGO) of
        Inr s \<Rightarrow> s
      | Inl err \<Rightarrow>
          \<lparr>args = a, lsm = None, instrumented = None, self_build_folder = ''/b'',
           bootstrap_dir = [], instrumentation_dir = [], cspgo_instrumentation_dir = [],
           profiling_dir = [], cspgo_profiling_dir = [], final_dir = [],
           self_llvm_folder = [], host_tools = new_tools HostTools,
           def_llvm_builder_cls = default_cls a, final = ex_builder (default_cls a),
           common_cmake_defines = []\<rparr>)"

section \<open>Predicates on traces used in the proofs\<close>

text \<open>The LLVM builder an event is a call on, if any.\<close>

fun builder_of :: "event \<Rightarrow> builder option" where
  "builder_of (CheckDependencies b) = Some b"
| "builder_of (Configure b) = Some b"
| "builder_of (Build b) = Some b"
| "builder_of (GenerateProfdata b) = Some b"
| "builder_of (ShowInstallInfo b) = Some b"
| "builder_of ev = None"

text \<open>
  A trace without a call on an LLVM builder and without a stage header, in which only
  builders of the two default classes are constructed.
\<close>

fun default_construct :: "event \<Rightarrow> bool" where
  "default_construct (Construct k) = (k = LLVMBuilder \<or> k = LLVMSlimBuilder)"
| "default_construct ev = True"

definition quiet :: "event list \<Rightarrow> bool" where
  "quiet t =
     (\<forall>ev \<in> set t. builder_of ev = None \<and> \<not> is_stage_header ev \<and> default_construct ev)"

text \<open>A trace that configures and builds no instrumented builder of either sort.\<close>

definition neutral :: "event list \<Rightarrow> bool" where
  "neutral t =
     (\<forall>b. Configure b \<in> set t \<or> Build b \<in> set t \<longrightarrow>
          \<not> is_cspgo_kind (b_kind b) \<and> \<not> is_plain_instrumented_kind (b_kind b))"

text \<open>The kernel builders whose \<open>build\<close> a trace holds.\<close>

fun kernel_builds :: "event list \<Rightarrow> kernel_builder list" where
  "kernel_builds [] = []"
| "kernel_builds (KernelBuild k # evs) = k # kernel_builds evs"
| "kernel_builds (ev # evs) = kernel_builds evs"

section \<open>Invariants of a run, used in the proofs\<close>

text \<open>
  \<open>ok P Q m\<close>: every event of the computation \<open>m\<close> satisfies \<open>P\<close>, and its result, if it
  returns one, satisfies \<open>Q\<close>.
\<close>

definition ok :: "(event \<Rightarrow> bool) \<Rightarrow> ('a \<Rightarrow> bool) \<Rightarrow> 'a res \<Rightarrow> bool" where
  "ok P Q m = ((\<forall>ev \<in> set (snd m). P ev) \<and> (\<forall>x. fst m = Inr x \<longrightarrow> Q x))"

text \<open>
  The errors of the three checks on a Linux source folder that the user gave.
\<close>

fun is_linux_error :: "error \<Rightarrow> bool" where
  "is_linux_error (LinuxFolderMissing f) = True"
| "is_linux_error (LinuxNotKernelTree f) = True"
| "is_linux_error (LinuxTooOld v m) = True"
| "is_linux_error err = False"


text \<open>
  For a run without bootstrapping: no bootstrap stage, and host tools for the builder
  configured in the folder \<open>fd\<close> of the final stage; with the facts about the
  orchestrator that this rests on.
\<close>

definition host_final :: "path \<Rightarrow> event \<Rightarrow> bool" where
  "host_final fd ev =
     (ev \<noteq> PrintHeader ''Building LLVM (bootstrap)'' \<and> ev \<noteq> Construct LLVMBootstrapBuilder \<and>
      (\<forall>b. ev = Configure b \<and> b_folders_build b = Some fd \<longrightarrow>
           (\<exists>t. b_tools b = Some t \<and> origin t = HostTools)))"

definition stage1_inv :: "path \<Rightarrow> stages \<Rightarrow> bool" where
  "stage1_inv bf s =
     (build_stage1_only (args s) \<and> origin (host_tools s) = HostTools \<and>
      def_llvm_builder_cls s \<noteq> LLVMBootstrapBuilder \<and>
      final_dir s = path_join bf ''final'' \<and>
      instrumentation_dir s = path_join bf ''instrumentation'' \<and>
      cspgo_instrumentation_dir s = path_join bf ''cspgo_instrumentation'' \<and>
      profiling_dir s = path_join bf ''profiling'' \<and>
      cspgo_profiling_dir s = path_join bf ''cspgo_profiling'')"

text \<open>
  A builder that is configured or built with the tools of a stage has the target list
  \<open>T\<close> and the project list \<open>Pj\<close>; with the facts about the orchestrator that this
  rests on.
\<close>

definition resolved_lists :: "string list \<Rightarrow> string list \<Rightarrow> event \<Rightarrow> bool" where
  "resolved_lists T Pj ev =
     (\<forall>b. (ev = Configure b \<or> ev = Build b) \<and> (\<exists>t p. b_tools b = Some t \<and> origin t = StageTools p) \<longrightarrow>
          b_targets b = T \<and> b_projects b = Pj)"

definition lists_inv :: "string list \<Rightarrow> string list \<Rightarrow> stages \<Rightarrow> bool" where
  "lists_inv T Pj s =
     (b_targets (final s) = T \<and> b_projects (final s) = Pj \<and> origin (host_tools s) = HostTools)"

text \<open>
  The cmake defines of a builder hold the common defines: those of the constructor
  (\<open>c0\<close>) for the bootstrap builder, those left by \<open>update_defines\<close> (\<open>c1\<close>) for
  every other builder, where the final builder (build folder \<open>fd\<close>) may set its own
  \<open>LLVM_ENABLE_LTO\<close> and \<open>LLVM_PROFDATA_FILE\<close>; with the facts about the orchestrator
  that this rests on.
\<close>

definition has_defines :: "(string, string) dict \<Rightarrow> (string, string) dict \<Rightarrow> path \<Rightarrow> event \<Rightarrow> bool" where
  "has_defines c0 c1 fd ev =
     (\<forall>b. ev = CheckDependencies b \<or> ev = Configure b \<or> ev = Build b \<longrightarrow>
        (if b_kind b = LLVMBootstrapBuilder then
           \<forall>k v. map_of c0 k = Some v \<longrightarrow> map_of (b_cmake_defines b) k = Some v
         else
           \<forall>k v. map_of c1 k = Some v \<longrightarrow>
             map_of (b_cmake_defines b) k = Some v \<or>
             b_folders_build b = Some fd \<and> (k = ''LLVM_ENABLE_LTO'' \<or> k = ''LLVM_PROFDATA_FILE'')))"

definition defines_inv :: "(string, string) dict \<Rightarrow> path \<Rightarrow> stages \<Rightarrow> bool" where
  "defines_inv c fd s =
     (common_cmake_defines s = c \<and> distinct (map fst c) \<and> final_dir s = fd \<and>
      b_kind (final s) \<noteq> LLVMBootstrapBuilder \<and> def_llvm_builder_cls s \<noteq> LLVMBootstrapBuilder)"

text \<open>
  The orchestrator with another value of \<open>args.cspgo\<close>, and the events of a run that
  has no instrumentation and no profiling stage.
\<close>

definition set_cspgo :: "bool \<Rightarrow> stages \<Rightarrow> stages" where
  "set_cspgo c s = s\<lparr>args := (args s)\<lparr>cspgo := c\<rparr>\<rparr>"

definition no_pgo_event :: "event \<Rightarrow> bool" where
  "no_pgo_event ev =
     (ev \<noteq> PrintHeader ''Building LLVM (instrumented)'' \<and>
      ev \<noteq> PrintHeader ''Generating PGO profiles'' \<and>
      (\<forall>k. ev = Construct k \<longrightarrow> \<not> is_cspgo_kind k \<and> \<not> is_plain_instrumented_kind k))"


section \<open>Sequencing\<close>

lemma bind_Inl [simp]: "bind (Inl err, t) f = (Inl err, t)"
  by (simp add: bind_def)

lemma bind_Inr [simp]: "bind (Inr a, t) f = (fst (f a), t @ snd (f a))"
  by (simp add: bind_def split: prod.splits)

lemma emit_simp [simp]: "emit evs = (Inr (), evs)"
  by (simp add: emit_def)

lemma skip_simp [simp]: "skip s = (Inr s, [])"
  by (simp add: skip_def)

lemma truthy_simps [simp]:
  "truthy None = False" "truthy (Some []) = False" "truthy (Some (x # xs)) = True"
  by (simp_all add: truthy_def)

lemma truthy_Some: "truthy x \<Longrightarrow> \<exists>v. x = Some v"
  by (cases x) simp_all

section \<open>The stage operations, as results and traces\<close>

lemma stage_final_step_state [simp]: "stage (args (final_step_state e s)) = stage (args s)"
  by (simp add: final_step_state_def stage1_only_setup_def append_bolt_project_def Let_def
      split: prod.splits if_splits)

lemma bootstrap_eq:
  "bootstrap e s =
     (if truthy (stage (args s)) then Inl (SystemExit 0) else Inr s,
      PrintHeader ''Building LLVM (bootstrap)'' # snd (bootstrap_body e s) @
      (if truthy (stage (args s)) then [PrintInfo (''Building LLVM (bootstrap)'' @ '' done.'')] else []))"
  by (simp add: bootstrap_def build_stage_def bootstrap_body_def Let_def)

lemma instrumentation_eq:
  "pgo (args s) = Some p \<Longrightarrow>
   instrumentation e s c =
     (if truthy (stage (args s)) then Inl (SystemExit 0)
      else Inr (s\<lparr>instrumented := Some (instrumented_builder e s c p)\<rparr>),
      PrintHeader ''Building LLVM (instrumented)'' # snd (instrumentation_body e c s) @
      (if truthy (stage (args s)) then [PrintInfo (''Building LLVM (instrumented)'' @ '' done.'')] else []))"
  by (simp add: instrumentation_def build_stage_def instrumentation_body_def
      setup_instrumentation_def)

lemma profiling_eq:
  "pgo (args s) = Some p \<Longrightarrow>
   profiling e s c =
     (if truthy (stage (args s)) then Inl (SystemExit 0) else Inr s,
      PrintHeader ''Generating PGO profiles'' # snd (profiling_body e c s) @
      (if truthy (stage (args s)) then [PrintInfo (''Generating PGO profiles'' @ '' done.'')] else []))"
  by (simp add: profiling_def build_stage_def profiling_body_def profiling_instrumented_def
      setup_instrumentation_def split: option.splits)

lemma final_step_eq:
  "final_step e s =
     (if truthy (stage (args s)) then Inl (SystemExit 0) else Inr (final_step_state e s),
      PrintHeader ''Building LLVM (final)'' # final_step_events e s @
      (if truthy (stage (args s)) then [PrintInfo (''Building LLVM (final)'' @ '' done.'')] else []))"
  by (simp add: final_step_def build_stage_def final_step_body_def)

section \<open>No stage body prints a stage header\<close>

lemma reconcile_loop_warnings:
  "\<forall>ev \<in> set w. \<exists>m. ev = PrintWarning m \<Longrightarrow>
   \<forall>ev \<in> set (snd (reconcile_loop i l w)). \<exists>m. ev = PrintWarning m"
proof (induction i l w rule: reconcile_loop.induct)
  case (1 i l w)
  show ?case
    using "1.prems" "1.IH"
    by (subst reconcile_loop.simps) (auto simp: both_warning_def)
qed

lemma reconcile_warnings: "ev \<in> set (snd (reconcile l)) \<Longrightarrow> \<exists>m. ev = PrintWarning m"
  using reconcile_loop_warnings[of "[]" 0 l] by (auto simp: reconcile_def)

lemma no_header_run_pgo_builder [simp]: "filter is_stage_header (run_pgo_builder e b) = []"
  by (cases b) simp_all

lemma no_header_workloads [simp]: "filter is_stage_header (profiling_workloads e s c i p) = []"
proof -
  have "filter is_stage_header (snd (reconcile (kernel_pgo_targets p))) = []"
    by (auto simp: filter_empty_conv dest: reconcile_warnings)
  then show ?thesis
    by (simp add: profiling_workloads_def Let_def)
qed

lemma no_header_bootstrap_body [simp]: "filter is_stage_header (snd (bootstrap_body e s)) = []"
  by (simp add: bootstrap_body_def Let_def)

lemma no_header_instrumentation_body [simp]:
  "filter is_stage_header (snd (instrumentation_body e c s)) = []"
  by (simp add: instrumentation_body_def setup_instrumentation_def split: option.splits)

lemma no_header_profiling_body [simp]:
  "filter is_stage_header (snd (profiling_body e c s)) = []"
  by (simp add: profiling_body_def profiling_instrumented_def setup_instrumentation_def
      split: option.splits)

lemma no_header_final_step_events [simp]: "filter is_stage_header (final_step_events e s) = []"
  by (simp add: final_step_events_def stage1_only_setup_def bolt_setup_def Let_def
      split: prod.splits)

section \<open>Facts about \<open>__init__\<close>\<close>

lemma quiet_simps [simp]:
  "quiet []" "quiet (xs @ ys) = (quiet xs \<and> quiet ys)"
  "quiet (ev # xs) =
     (builder_of ev = None \<and> \<not> is_stage_header ev \<and> default_construct ev \<and> quiet xs)"
  by (auto simp: quiet_def)

lemma quiet_prepare_linux: "quiet (snd (prepare_linux e a src kv))"
  by (simp add: prepare_linux_def Let_def stage_titles_def)

lemma quiet_prepare_llvm: "quiet (snd (prepare_llvm e a src))"
  by (simp add: prepare_llvm_def Let_def)

lemma quiet_resolve_final: "quiet (snd (resolve_final e a f))"
  by (simp add: resolve_final_def Let_def default_cls_def)

lemma quiet_bolt_warnings: "quiet (bolt_warnings e a fin f)"
  by (simp add: bolt_warnings_def Let_def)

lemma resolve_final_Inr:
  "fst (resolve_final e a f) = Inr fin \<Longrightarrow>
   b_kind fin = default_cls a \<and> b_targets fin = resolved_targets e a f \<and>
   b_projects fin = resolved_projects e a f"
  by (auto simp: resolve_final_def Let_def new_builder_def split: if_splits)

lemma snd_bind: "snd (bind m f) = (case fst m of Inl err \<Rightarrow> snd m | Inr x \<Rightarrow> snd m @ snd (f x))"
  by (cases m; cases "fst m") (auto simp: bind_def split: prod.splits)

lemma fst_bind: "fst (bind m f) = (case fst m of Inl err \<Rightarrow> Inl err | Inr x \<Rightarrow> fst (f x))"
  by (cases m; cases "fst m") (auto simp: bind_def split: prod.splits)

lemma quiet_init: "quiet (snd (LLVMStages_init e a src bf kv))"
  by (simp add: LLVMStages_init_def snd_bind quiet_prepare_linux quiet_prepare_llvm
      quiet_resolve_final quiet_bolt_warnings stage_titles_def split: sum.splits)

lemma init_Inr:
  assumes "fst (LLVMStages_init e a src bf kv) = Inr s0"
  shows "args s0 = a" and "instrumented s0 = None"
    and "b_kind (final s0) = default_cls a" and "def_llvm_builder_cls s0 = default_cls a"
    and "b_targets (final s0) = resolved_targets e a (self_llvm_folder s0)"
    and "b_projects (final s0) = resolved_projects e a (self_llvm_folder s0)"
    and "origin (host_tools s0) = HostTools"
    and "compute_common_defines a = Inr (common_cmake_defines s0)"
    and "final_dir s0 = path_join bf ''final''"
    and "bootstrap_dir s0 = path_join bf ''bootstrap''"
    and "self_build_folder s0 = bf"
  using assms
  by (auto simp: LLVMStages_init_def fst_bind new_tools_def split: sum.splits
      dest: resolve_final_Inr)

lemma build_llvm_eq:
  "build_llvm e a tc =
     bind (LLVMStages_init e a (path_join tc ''src'')
             (if truthy (build_folder a) then resolve e (opt_list (build_folder a))
              else path_join tc ''build/llvm'') DEFAULT_KERNEL_FOR_PGO) (run_stages e)"
  by (simp add: build_llvm_def Let_def)

section \<open>Facts about the kinds of the builders and the order of the stages\<close>

lemma cs_after_plain_True [simp]: "cs_after_plain True t"
proof (induction t)
  case Nil then show ?case by simp
next
  case (Cons ev t) then show ?case by (cases ev) simp_all
qed

lemma neutral_Cons: "neutral (ev # t) \<Longrightarrow> neutral t"
  by (auto simp: neutral_def)

lemma cs_after_plain_neutral:
  "neutral t \<Longrightarrow> cs_after_plain seen (t @ ys) = cs_after_plain seen ys"
proof (induction t)
  case Nil then show ?case by simp
next
  case (Cons ev t)
  have "neutral t" using Cons.prems by (rule neutral_Cons)
  then have ih: "cs_after_plain seen (t @ ys) = cs_after_plain seen ys" by (rule Cons.IH)
  show ?case
    using Cons.prems ih by (cases ev) (auto simp: neutral_def)
qed

lemma quiet_neutral: "quiet t \<Longrightarrow> neutral t"
  by (auto simp: quiet_def neutral_def)

lemma kind_configure [simp]: "b_kind (configure_llvm_builder s i d t) = b_kind i"
  by (simp add: configure_llvm_builder_def Let_def split: option.splits)

lemma kind_bootstrap_builder [simp]: "b_kind (bootstrap_builder e s) = LLVMBootstrapBuilder"
  by (simp add: bootstrap_builder_def Let_def new_builder_def)

lemma kind_instrumented_builder [simp]:
  "b_kind (instrumented_builder e s c p) = instrumented_cls c (full_toolchain (args s))"
  by (simp add: instrumented_builder_def Let_def new_builder_def)

lemma kind_final_configured [simp]: "b_kind (final_configured e s) = b_kind (final s)"
  by (simp add: final_configured_def Let_def split: option.splits)

lemma cls_simps [simp]:
  "is_plain_instrumented_kind (instrumented_cls False f)" "\<not> is_cspgo_kind (instrumented_cls False f)"
  "is_cspgo_kind (instrumented_cls True f)" "\<not> is_plain_instrumented_kind (instrumented_cls True f)"
  "\<not> is_cspgo_kind (default_cls a)" "\<not> is_plain_instrumented_kind (default_cls a)"
  by (simp_all add: instrumented_cls_def default_cls_def)

lemma kind_stage1_only_setup:
  "stage1_only_setup s f = (s1, f1, ev) \<Longrightarrow>
   b_kind f1 = b_kind f \<and> (ev = [] \<or> ev = [CheckDependencies f])"
  by (auto simp: stage1_only_setup_def append_bolt_project_def Let_def split: if_splits prod.splits)

lemma kind_bolt_setup:
  "bolt_setup e s f = (f1, ev) \<Longrightarrow> b_kind f1 = b_kind f \<and> (ev = [] \<or> ev = [ConstructKernel])"
  by (auto simp: bolt_setup_def Let_def split: if_splits)

lemma final_step_events_shape:
  "\<exists>f2 ev. final_step_events e s = ev @ [Configure f2, Build f2, ShowInstallInfo f2] \<and>
     b_kind f2 = b_kind (final s) \<and>
     (\<forall>x \<in> set ev. x = CheckDependencies (final_configured e s) \<or> x = ConstructKernel)"
proof -
  obtain s1 f1 ev1 where a: "stage1_only_setup s (final_configured e s) = (s1, f1, ev1)"
    by (cases "stage1_only_setup s (final_configured e s)") auto
  obtain f2 ev2 where b: "bolt_setup e s1 f1 = (f2, ev2)"
    by (cases "bolt_setup e s1 f1") auto
  show ?thesis
    using kind_stage1_only_setup[OF a] kind_bolt_setup[OF b]
    by (auto simp: final_step_events_def a b)
qed

lemma neutral_final_step_events:
  "\<not> is_cspgo_kind (b_kind (final s)) \<Longrightarrow> \<not> is_plain_instrumented_kind (b_kind (final s)) \<Longrightarrow>
   neutral (final_step_events e s)"
  using final_step_events_shape[of e s] by (auto simp: neutral_def)

lemma neutral_bootstrap_body: "neutral (snd (bootstrap_body e s))"
  by (simp add: neutral_def bootstrap_body_def Let_def)

lemma neutral_simps [simp]:
  "neutral []" "neutral (xs @ ys) = (neutral xs \<and> neutral ys)"
  "neutral (PrintHeader x # xs) = neutral xs" "neutral (PrintInfo x # xs) = neutral xs"
  "neutral (PrintDuration # xs) = neutral xs"
  by (auto simp: neutral_def)

lemma update_defines_frame [simp]:
  "args (update_defines s) = args s" "final (update_defines s) = final s"
  "instrumented (update_defines s) = instrumented s"
  "def_llvm_builder_cls (update_defines s) = def_llvm_builder_cls s"
  "final_dir (update_defines s) = final_dir s" "bootstrap_dir (update_defines s) = bootstrap_dir s"
  "host_tools (update_defines s) = host_tools s" "lsm (update_defines s) = lsm s"
  "self_llvm_folder (update_defines s) = self_llvm_folder s"
  "self_build_folder (update_defines s) = self_build_folder s"
  by (simp_all add: update_defines_def Let_def)

lemma setup_instrumentation_Some:
  "pgo (args s) = Some p \<Longrightarrow>
   setup_instrumentation e s c =
     (Inr (instrumented_builder e s c p), [Construct (instrumented_cls c (full_toolchain (args s)))])"
  by (simp add: setup_instrumentation_def)

lemma instrumentation_body_Some:
  "pgo (args s) = Some p \<Longrightarrow>
   snd (instrumentation_body e c s) =
     [Construct (instrumented_cls c (full_toolchain (args s))),
      Configure (instrumented_builder e s c p), Build (instrumented_builder e s c p)]"
  by (simp add: instrumentation_body_def setup_instrumentation_def)

lemma snd_bind_pair:
  "snd (bind (r, t) f) = t @ (case r of Inl err \<Rightarrow> [] | Inr a \<Rightarrow> snd (f a))"
  by (cases r) simp_all

lemma cs_run_stages:
  assumes full: "\<not> truthy (stage (args s))"
    and k: "\<not> is_cspgo_kind (b_kind (final s))" "\<not> is_plain_instrumented_kind (b_kind (final s))"
  shows "cs_after_plain False (snd (run_stages e s))"
proof (cases "truthy (pgo (args s))")
  case False
  have "neutral (snd (run_stages e s))"
    using full k False
    by (simp add: run_stages_def pgo_stages_def final_stage_def bootstrap_eq final_step_eq
        neutral_bootstrap_body neutral_final_step_events)
  then show ?thesis
    using cs_after_plain_neutral[of "snd (run_stages e s)" False "[]"] by simp
next
  case True
  then obtain p where p: "pgo (args s) = Some p"
    by (auto dest: truthy_Some)
  then have p2: "pgo (args (update_defines s)) = Some p"
    by simp
  show ?thesis
    using full True p
    by (cases "build_stage1_only (args s)")
       (simp_all add: run_stages_def pgo_stages_def bootstrap_eq instrumentation_eq[OF p2]
          instrumentation_body_Some[OF p2] cs_after_plain_neutral neutral_bootstrap_body
          snd_bind_pair)
qed

section \<open>Counting stage headers\<close>

lemma stage_count_simps [simp]:
  "stage_count [] = 0"
  "stage_count (xs @ ys) = stage_count xs + stage_count ys"
  "stage_count (ev # xs) = (if is_stage_header ev then 1 else 0) + stage_count xs"
  by (simp_all add: stage_count_def)

lemma stage_count_bodies [simp]:
  "stage_count (snd (bootstrap_body e s)) = 0"
  "stage_count (snd (instrumentation_body e c s)) = 0"
  "stage_count (snd (profiling_body e c s)) = 0"
  "stage_count (final_step_events e s) = 0"
  by (simp_all add: stage_count_def)

section \<open>Facts about the kernel benchmarks of \<open>profiling\<close>\<close>

lemma profiling_body_events:
  assumes "pgo (args s) = Some p"
  shows "snd (profiling_body e c s) =
           (if instrumented s = None then [Construct (instrumented_cls c (full_toolchain (args s)))] else []) @
           profiling_workloads e s c
             (case instrumented s of Some b \<Rightarrow> b | None \<Rightarrow> instrumented_builder e s c p) p @
           [GenerateProfdata
             (case instrumented s of Some b \<Rightarrow> b | None \<Rightarrow> instrumented_builder e s c p)]"
  using assms
  by (simp add: profiling_body_def profiling_instrumented_def setup_instrumentation_def
      split: option.splits)

lemma args_ex_stages [simp]: "args (ex_stages a) = a"
  by (cases "fst (LLVMStages_init ex_env a ''/src'' ''/b'' DEFAULT_KERNEL_FOR_PGO)")
     (simp_all add: ex_stages_def init_Inr(1))

section \<open>Invariants of the stages\<close>

lemma ok_bind:
  assumes "ok P Q m" and "\<And>x. Q x \<Longrightarrow> ok P R (f x)"
  shows "ok P R (bind m f)"
proof (cases "fst m")
  case (Inl err)
  then show ?thesis
    using assms(1) by (cases m) (auto simp: ok_def)
next
  case (Inr x)
  then have "Q x" using assms(1) by (simp add: ok_def)
  then have "ok P R (f x)" by (rule assms(2))
  then show ?thesis
    using assms(1) Inr by (cases m) (auto simp: ok_def)
qed

lemma ok_Inr [simp]: "ok P Q (Inr s, []) = Q s"
  by (simp add: ok_def)

lemma ok_skip: "Q s \<Longrightarrow> ok P Q (skip s)"
  by simp

lemma ok_if: "ok P Q m \<Longrightarrow> Q x \<Longrightarrow> ok P Q (if c then m else skip x)"
  by (simp add: ok_skip)

lemma ok_events: "ok P Q m \<Longrightarrow> ev \<in> set (snd m) \<Longrightarrow> P ev"
  by (auto simp: ok_def)

lemma ok_build_stage:
  assumes "ok P Q (func s)" and "P (PrintHeader title)" and "P (PrintInfo (title @ '' done.''))"
  shows "ok P Q (build_stage title func s)"
proof (cases "fst (func s)")
  case (Inl err)
  then show ?thesis
    using assms by (cases "func s") (auto simp: ok_def build_stage_def)
next
  case (Inr x)
  then show ?thesis
    using assms by (cases "func s") (auto simp: ok_def build_stage_def)
qed

lemma ok_pgo_stages:
  assumes j: "J s"
    and instr: "\<And>s c. J s \<Longrightarrow> ok P J (instrumentation e s c)"
    and prof: "\<And>s c. J s \<Longrightarrow> ok P J (profiling e s c)"
  shows "ok P J (pgo_stages e s)"
proof -
  have last: "ok P J (if cspgo (args s2) then
                   bind (if \<not> truthy (stage (args s2)) \<or> stage (args s2) = Some ''csinstrumentation''
                         then instrumentation e s2 True else skip s2)
                     (\<lambda>s3. if \<not> truthy (stage (args s3)) \<or> stage (args s3) = Some ''csprofiling''
                            then profiling e s3 True else skip s3)
                 else skip s2)" if "J s2" for s2
  proof (cases "cspgo (args s2)")
    case False
    then show ?thesis using that by (simp add: ok_skip)
  next
    case True
    have "ok P J (bind (if \<not> truthy (stage (args s2)) \<or> stage (args s2) = Some ''csinstrumentation''
                         then instrumentation e s2 True else skip s2)
                     (\<lambda>s3. if \<not> truthy (stage (args s3)) \<or> stage (args s3) = Some ''csprofiling''
                            then profiling e s3 True else skip s3))"
      by (rule ok_bind[where Q = J]) (auto intro: ok_if instr prof that)
    then show ?thesis using True by simp
  qed
  have "ok P J (bind (if \<not> truthy (stage (args s)) \<or> stage (args s) = Some ''instrumentation''
              then instrumentation e s False else skip s) (\<lambda>s1.
        bind (if \<not> truthy (stage (args s1)) \<or> stage (args s1) = Some ''profiling''
              then profiling e s1 False else skip s1) (\<lambda>s2.
          if cspgo (args s2) then
            bind (if \<not> truthy (stage (args s2)) \<or> stage (args s2) = Some ''csinstrumentation''
                  then instrumentation e s2 True else skip s2) (\<lambda>s3.
              if \<not> truthy (stage (args s3)) \<or> stage (args s3) = Some ''csprofiling''
              then profiling e s3 True else skip s3)
          else skip s2)))"
    apply (rule ok_bind[where Q = J])
     apply (rule ok_if[OF instr[OF j] j])
    apply (rule ok_bind[where Q = J])
     apply (rule ok_if[OF prof])
      apply assumption
     apply assumption
    apply (rule last)
    apply assumption
    done
  then show ?thesis
    using j by (simp add: pgo_stages_def ok_skip)
qed

lemma ok_final_stage:
  assumes j: "J s"
    and su: "\<And>s. J s \<Longrightarrow>
               ok P (\<lambda>b. J (s\<lparr>instrumented := Some b\<rparr>)) (setup_instrumentation e s (cspgo (args s)))"
    and fin: "\<And>s. J s \<Longrightarrow> ok P (\<lambda>s. True) (final_step e s)"
  shows "ok P (\<lambda>s. True) (final_stage e s)"
proof -
  have a: "ok P J (if truthy (pgo (args s)) \<and> instrumented s = None then
                bind (setup_instrumentation e s (cspgo (args s)))
                  (\<lambda>b. skip (s\<lparr>instrumented := Some b\<rparr>))
              else skip s)"
  proof (cases "truthy (pgo (args s)) \<and> instrumented s = None")
    case True
    have "ok P J (bind (setup_instrumentation e s (cspgo (args s)))
                  (\<lambda>b. skip (s\<lparr>instrumented := Some b\<rparr>)))"
      by (rule ok_bind[OF su[OF j]]) (rule ok_skip)
    then show ?thesis using True by simp
  next
    case False
    then show ?thesis using j by (auto simp: ok_skip)
  qed
  have "ok P (\<lambda>s. True) (bind (if truthy (pgo (args s)) \<and> instrumented s = None then
                bind (setup_instrumentation e s (cspgo (args s)))
                  (\<lambda>b. skip (s\<lparr>instrumented := Some b\<rparr>))
              else skip s) (final_step e))"
    by (rule ok_bind[OF a]) (rule fin)
  then show ?thesis
    by (simp add: final_stage_def ok_skip)
qed

lemma ok_run_stages:
  assumes i: "I s"
    and boot: "\<And>s. I s \<Longrightarrow> \<not> build_stage1_only (args s) \<Longrightarrow> ok P I (bootstrap e s)"
    and upd: "\<And>s. I s \<Longrightarrow> J (update_defines s)"
    and instr: "\<And>s c. J s \<Longrightarrow> ok P J (instrumentation e s c)"
    and prof: "\<And>s c. J s \<Longrightarrow> ok P J (profiling e s c)"
    and su: "\<And>s. J s \<Longrightarrow>
               ok P (\<lambda>b. J (s\<lparr>instrumented := Some b\<rparr>)) (setup_instrumentation e s (cspgo (args s)))"
    and fin: "\<And>s. J s \<Longrightarrow> ok P (\<lambda>s. True) (final_step e s)"
    and dur: "P PrintDuration"
  shows "ok P (\<lambda>u. True) (run_stages e s)"
proof -
  have b: "ok P I (if \<not> build_stage1_only (args s) \<and>
              (\<not> truthy (stage (args s)) \<or> stage (args s) = Some ''bootstrap'')
           then bootstrap e s else skip s)"
    using i boot by (auto intro: ok_skip)
  show ?thesis
    unfolding run_stages_def
    apply (rule ok_bind[OF b])
    apply (rule ok_bind[where Q = J])
     apply (rule ok_skip)
     apply (erule upd)
    apply (rule ok_bind[where Q = J])
     apply (rule ok_pgo_stages[where J = J])
       apply assumption
      apply (erule instr)
     apply (erule prof)
    apply (rule ok_bind[where Q = "\<lambda>s. True"])
     apply (rule ok_final_stage[where J = J])
       apply assumption
      apply (erule su)
     apply (erule fin)
    apply (simp add: ok_def dur)
    done
qed

lemma init_dirs:
  assumes "fst (LLVMStages_init e a src bf kv) = Inr s0"
  shows "instrumentation_dir s0 = path_join bf ''instrumentation''"
    and "cspgo_instrumentation_dir s0 = path_join bf ''cspgo_instrumentation''"
    and "profiling_dir s0 = path_join bf ''profiling''"
    and "cspgo_profiling_dir s0 = path_join bf ''cspgo_profiling''"
  using assms
  by (auto simp: LLVMStages_init_def fst_bind split: sum.splits)

lemma update_defines_dirs [simp]:
  "instrumentation_dir (update_defines s) = instrumentation_dir s"
  "cspgo_instrumentation_dir (update_defines s) = cspgo_instrumentation_dir s"
  "profiling_dir (update_defines s) = profiling_dir s"
  "cspgo_profiling_dir (update_defines s) = cspgo_profiling_dir s"
  by (simp_all add: update_defines_def Let_def)

lemma ok_quiet:
  "quiet t \<Longrightarrow>
   (\<And>ev. builder_of ev = None \<Longrightarrow> \<not> is_stage_header ev \<Longrightarrow> default_construct ev \<Longrightarrow> P ev) \<Longrightarrow>
   \<forall>ev \<in> set t. P ev"
  by (auto simp: quiet_def)

lemma ok_build_llvm:
  assumes q: "\<And>ev. builder_of ev = None \<Longrightarrow> \<not> is_stage_header ev \<Longrightarrow> default_construct ev \<Longrightarrow> P ev"
    and r: "\<And>s0. fst (LLVMStages_init e a (path_join tc ''src'')
             (if truthy (build_folder a) then resolve e (opt_list (build_folder a))
              else path_join tc ''build/llvm'') DEFAULT_KERNEL_FOR_PGO) = Inr s0 \<Longrightarrow>
            ok P (\<lambda>u. True) (run_stages e s0)"
  shows "\<forall>ev \<in> set (snd (build_llvm e a tc)). P ev"
proof -
  let ?init = "LLVMStages_init e a (path_join tc ''src'')
             (if truthy (build_folder a) then resolve e (opt_list (build_folder a))
              else path_join tc ''build/llvm'') DEFAULT_KERNEL_FOR_PGO"
  have i: "\<forall>ev \<in> set (snd ?init). P ev"
    using quiet_init q by (rule ok_quiet)
  show ?thesis
  proof (cases "fst ?init")
    case (Inl err)
    then show ?thesis using i by (simp add: build_llvm_eq snd_bind)
  next
    case (Inr s0)
    then show ?thesis
      using i r[OF Inr] by (auto simp: build_llvm_eq snd_bind ok_def)
  qed
qed

lemma instrumented_cls_not_bootstrap [simp]: "instrumented_cls c f \<noteq> LLVMBootstrapBuilder"
  by (simp add: instrumented_cls_def)

lemma folder_configure [simp]: "b_folders_build (configure_llvm_builder s i d t) = Some d"
  by (simp add: configure_llvm_builder_def Let_def split: option.splits)

lemma folder_instrumented_builder [simp]:
  "b_folders_build (instrumented_builder e s c p) =
     Some (if c then cspgo_instrumentation_dir s else instrumentation_dir s)"
  by (simp add: instrumented_builder_def Let_def)

lemma folder_pgo_llvm_builder [simp]: "b_folders_build (pgo_llvm_builder e s d i) = Some d"
  by (simp add: pgo_llvm_builder_def Let_def split: option.splits)

lemma c5_setup:
  "stage1_inv bf s \<Longrightarrow>
   ok (host_final (path_join bf ''final'')) (\<lambda>b. stage1_inv bf (s\<lparr>instrumented := Some b\<rparr>))
     (setup_instrumentation e s c)"
  by (auto simp: ok_def setup_instrumentation_def stage1_inv_def host_final_def split: option.splits)

lemma c5_instrumentation:
  "stage1_inv bf s \<Longrightarrow> ok (host_final (path_join bf ''final'')) (stage1_inv bf) (instrumentation e s c)"
  unfolding instrumentation_def
  by (rule ok_build_stage)
     (auto simp: ok_def instrumentation_body_def setup_instrumentation_def stage1_inv_def
        host_final_def path_join_def split: option.splits)

lemma c5_workloads:
  assumes "stage1_inv bf s"
  shows "\<forall>ev \<in> set (profiling_workloads e s c i p). host_final (path_join bf ''final'') ev"
proof -
  have w: "\<forall>ev \<in> set (snd (reconcile (kernel_pgo_targets p))). host_final (path_join bf ''final'') ev"
    by (auto dest!: reconcile_warnings simp: host_final_def)
  show ?thesis
    using assms w
    by (auto simp: profiling_workloads_def Let_def stage1_inv_def host_final_def path_join_def)
qed

lemma c5_profiling:
  "stage1_inv bf s \<Longrightarrow> ok (host_final (path_join bf ''final'')) (stage1_inv bf) (profiling e s c)"
  unfolding profiling_def
  apply (rule ok_build_stage)
  using c5_workloads[of bf s e c]
    apply (auto simp: ok_def profiling_body_def profiling_instrumented_def
      setup_instrumentation_def fst_bind snd_bind split: option.splits sum.splits)[1]
     apply (auto simp: host_final_def stage1_inv_def)
  done

lemma tools_bolt_setup: "b_tools (fst (bolt_setup e s f)) = b_tools f"
  by (simp add: bolt_setup_def Let_def)

lemma tools_stage1_only_setup:
  "build_stage1_only (args s) \<Longrightarrow> stage1_only_setup s f = (s1, f1, ev) \<Longrightarrow>
   \<exists>t. b_tools f1 = Some t \<and> origin t = origin (host_tools s)"
  by (auto simp: stage1_only_setup_def append_bolt_project_def Let_def split: if_splits prod.splits)

lemma c5_final:
  assumes "stage1_inv bf s"
  shows "ok (host_final (path_join bf ''final'')) (\<lambda>s. True) (final_step e s)"
proof -
  obtain s1 f1 ev1 where a: "stage1_only_setup s (final_configured e s) = (s1, f1, ev1)"
    by (cases "stage1_only_setup s (final_configured e s)") auto
  obtain f2 ev2 where b: "bolt_setup e s1 f1 = (f2, ev2)"
    by (cases "bolt_setup e s1 f1") auto
  have t: "\<exists>t. b_tools f2 = Some t \<and> origin t = HostTools"
    using tools_stage1_only_setup[OF _ a] tools_bolt_setup[of e s1 f1] assms b
    by (auto simp: stage1_inv_def)
  have ev: "ev1 = [] \<or> ev1 = [CheckDependencies (final_configured e s)]"
       "ev2 = [] \<or> ev2 = [ConstructKernel]"
    using kind_stage1_only_setup[OF a] kind_bolt_setup[OF b] by auto
  show ?thesis
    unfolding final_step_def
    apply (rule ok_build_stage)
    using t ev
      apply (auto simp: ok_def final_step_body_def final_step_events_def a b host_final_def)
    done
qed

lemma lists_configure [simp]:
  "b_targets (configure_llvm_builder s i d (Some t)) = b_targets (final s)"
  "b_projects (configure_llvm_builder s i d (Some t)) = b_projects (final s)"
  by (simp_all add: configure_llvm_builder_def Let_def)

lemma tools_configure_None [simp]:
  "b_tools (configure_llvm_builder s i d None) = Some (host_tools s)"
  by (simp add: configure_llvm_builder_def Let_def)

lemma lists_instrumented_builder [simp]:
  "b_targets (instrumented_builder e s c p) = b_targets (final s)"
  "b_projects (instrumented_builder e s c p) = b_projects (final s)"
  by (simp_all add: instrumented_builder_def Let_def)

lemma lists_pgo_llvm_builder [simp]:
  "b_targets (pgo_llvm_builder e s d i) = b_targets (final s)"
  "b_projects (pgo_llvm_builder e s d i) = b_projects (final s)"
  by (simp_all add: pgo_llvm_builder_def Let_def split: option.splits)

lemma tools_bootstrap_builder [simp]: "b_tools (bootstrap_builder e s) = Some (host_tools s)"
  by (simp add: bootstrap_builder_def Let_def)

lemma lists_final_configured [simp]:
  "b_targets (final_configured e s) = b_targets (final s)"
  "b_projects (final_configured e s) = b_projects (final s)"
  by (simp_all add: final_configured_def Let_def split: option.splits)

lemma c7_bootstrap:
  "lists_inv T Pj s \<Longrightarrow> ok (resolved_lists T Pj) (lists_inv T Pj) (bootstrap e s)"
  unfolding bootstrap_def
  by (rule ok_build_stage)
     (auto simp: ok_def bootstrap_body_def Let_def lists_inv_def resolved_lists_def)

lemma c7_setup:
  "lists_inv T Pj s \<Longrightarrow>
   ok (resolved_lists T Pj) (\<lambda>b. lists_inv T Pj (s\<lparr>instrumented := Some b\<rparr>))
     (setup_instrumentation e s c)"
  by (auto simp: ok_def setup_instrumentation_def lists_inv_def resolved_lists_def split: option.splits)

lemma c7_instrumentation:
  "lists_inv T Pj s \<Longrightarrow> ok (resolved_lists T Pj) (lists_inv T Pj) (instrumentation e s c)"
  unfolding instrumentation_def
  by (rule ok_build_stage)
     (auto simp: ok_def instrumentation_body_def setup_instrumentation_def lists_inv_def
        resolved_lists_def split: option.splits)

lemma c7_workloads:
  assumes "lists_inv T Pj s"
  shows "\<forall>ev \<in> set (profiling_workloads e s c i p). resolved_lists T Pj ev"
proof -
  have w: "\<forall>ev \<in> set (snd (reconcile (kernel_pgo_targets p))). resolved_lists T Pj ev"
    by (auto dest!: reconcile_warnings simp: resolved_lists_def)
  show ?thesis
    using assms w
    by (auto simp: profiling_workloads_def Let_def lists_inv_def resolved_lists_def)
qed

lemma c7_profiling:
  "lists_inv T Pj s \<Longrightarrow> ok (resolved_lists T Pj) (lists_inv T Pj) (profiling e s c)"
  unfolding profiling_def
  apply (rule ok_build_stage)
  using c7_workloads[of T Pj s e c]
    apply (auto simp: ok_def profiling_body_def profiling_instrumented_def
      setup_instrumentation_def fst_bind snd_bind split: option.splits sum.splits)[1]
     apply (auto simp: resolved_lists_def)
  done

lemma lists_bolt_setup:
  "b_targets (fst (bolt_setup e s f)) = b_targets f" "b_projects (fst (bolt_setup e s f)) = b_projects f"
  by (simp_all add: bolt_setup_def Let_def)

lemma lists_stage1_only_setup:
  "stage1_only_setup s f = (s1, f1, ev) \<Longrightarrow>
   b_targets f1 = b_targets f \<and>
   (if build_stage1_only (args s) then \<exists>t. b_tools f1 = Some t \<and> origin t = origin (host_tools s)
    else f1 = f)"
  by (auto simp: stage1_only_setup_def append_bolt_project_def Let_def split: if_splits prod.splits)

lemma c7_final:
  assumes "lists_inv T Pj s"
  shows "ok (resolved_lists T Pj) (\<lambda>s. True) (final_step e s)"
proof -
  obtain s1 f1 ev1 where a: "stage1_only_setup s (final_configured e s) = (s1, f1, ev1)"
    by (cases "stage1_only_setup s (final_configured e s)") auto
  obtain f2 ev2 where b: "bolt_setup e s1 f1 = (f2, ev2)"
    by (cases "bolt_setup e s1 f1") auto
  have f2: "f2 = fst (bolt_setup e s1 f1)" using b by simp
  have t: "(\<exists>t p. b_tools f2 = Some t \<and> origin t = StageTools p) \<longrightarrow>
           b_targets f2 = T \<and> b_projects f2 = Pj"
    using lists_stage1_only_setup[OF a] assms
    by (cases "build_stage1_only (args s)")
       (auto simp: f2 lists_bolt_setup tools_bolt_setup lists_inv_def)
  have ev: "ev1 = [] \<or> ev1 = [CheckDependencies (final_configured e s)]"
       "ev2 = [] \<or> ev2 = [ConstructKernel]"
    using kind_stage1_only_setup[OF a] kind_bolt_setup[OF b] by auto
  show ?thesis
    unfolding final_step_def
    apply (rule ok_build_stage)
    using t ev
      apply (auto simp: ok_def final_step_body_def final_step_events_def a b resolved_lists_def)
    done
qed

lemma init_llvm_folder:
  assumes "fst (LLVMStages_init e a src bf kv) = Inr s0"
  shows "self_llvm_folder s0 =
           (if truthy (llvm_folder a) then resolve e (opt_list (llvm_folder a))
            else path_join src ''llvm-project'')"
  using assms
  by (auto simp: LLVMStages_init_def fst_bind prepare_llvm_def Let_def split: sum.splits if_splits)

lemma distinct_dict_update: "distinct (map fst d) \<Longrightarrow> distinct (map fst (dict_update d e))"
proof -
  have "distinct (map fst d) \<Longrightarrow> distinct (map fst (fold (\<lambda>(k, v) acc. AList.update k v acc) e d))"
    for d
    by (induction e arbitrary: d) (auto simp: distinct_update)
  then show "distinct (map fst d) \<Longrightarrow> distinct (map fst (dict_update d e))"
    by (simp add: dict_update_def)
qed

lemma map_of_fold_update:
  "distinct (map fst e) \<Longrightarrow>
   map_of (fold (\<lambda>(k, v) acc. AList.update k v acc) e d) x =
     (case map_of e x of None \<Rightarrow> map_of d x | Some v \<Rightarrow> Some v)"
proof (induction e arbitrary: d)
  case Nil then show ?case by simp
next
  case (Cons p e)
  obtain k v where p: "p = (k, v)" by (cases p)
  have k: "map_of e k = None"
    using Cons.prems by (auto simp: p map_of_eq_None_iff)
  show ?case
    using Cons.IH[of "AList.update k v d"] Cons.prems k
    by (auto simp: p update_conv' split: option.splits)
qed

lemma map_of_dict_update:
  "distinct (map fst e) \<Longrightarrow> map_of (dict_update d e) = map_of d ++ map_of e"
  by (auto simp: dict_update_def map_of_fold_update map_add_def fun_eq_iff split: option.splits)

lemma distinct_dict_of_defines:
  "dict_of_defines ds acc = Some d \<Longrightarrow> distinct (map fst acc) \<Longrightarrow> distinct (map fst d)"
  by (induction ds arbitrary: acc) (auto simp: distinct_update split: option.splits)

lemma distinct_compute_common_defines:
  "compute_common_defines a = Inr c \<Longrightarrow> distinct (map fst c)"
  by (auto simp: compute_common_defines_def initial_defines_def Let_def distinct_update
      distinct_dict_update split: if_splits option.splits)

lemma distinct_update_defines:
  "distinct (map fst (common_cmake_defines s)) \<Longrightarrow>
   distinct (map fst (common_cmake_defines (update_defines s)))"
  by (simp add: update_defines_def Let_def distinct_update)

lemma has_defines_simps [simp]:
  "has_defines c0 c1 fd (PrintHeader x)" "has_defines c0 c1 fd (PrintInfo x)"
  "has_defines c0 c1 fd (PrintWarning x)" "has_defines c0 c1 fd PrintDuration"
  "has_defines c0 c1 fd (Construct k)" "has_defines c0 c1 fd ConstructKernel"
  "has_defines c0 c1 fd (KernelConfigure kb)" "has_defines c0 c1 fd (KernelBuild kb)"
  "has_defines c0 c1 fd (GenerateProfdata b)" "has_defines c0 c1 fd (ShowInstallInfo b)"
  "has_defines c0 c1 fd (CheckDependencies b) = has_defines c0 c1 fd (Configure b)"
  "has_defines c0 c1 fd (Build b) = has_defines c0 c1 fd (Configure b)"
  by (simp_all add: has_defines_def)

lemma has_defines_Configure:
  "has_defines c0 c1 fd (Configure b) =
     (if b_kind b = LLVMBootstrapBuilder then
        \<forall>k v. map_of c0 k = Some v \<longrightarrow> map_of (b_cmake_defines b) k = Some v
      else
        \<forall>k v. map_of c1 k = Some v \<longrightarrow>
          map_of (b_cmake_defines b) k = Some v \<or>
          b_folders_build b = Some fd \<and> (k = ''LLVM_ENABLE_LTO'' \<or> k = ''LLVM_PROFDATA_FILE''))"
  by (simp add: has_defines_def)

lemma defines_configure:
  "distinct (map fst (common_cmake_defines s)) \<Longrightarrow> map_of (common_cmake_defines s) k = Some v \<Longrightarrow>
   map_of (b_cmake_defines (configure_llvm_builder s i d t)) k = Some v"
  by (simp add: configure_llvm_builder_def Let_def map_of_dict_update map_add_def split: option.splits)

lemma defines_bootstrap_builder:
  "distinct (map fst (common_cmake_defines s)) \<Longrightarrow> map_of (common_cmake_defines s) k = Some v \<Longrightarrow>
   map_of (b_cmake_defines (bootstrap_builder e s)) k = Some v"
  by (simp add: bootstrap_builder_def Let_def defines_configure)

lemma defines_instrumented_builder:
  "distinct (map fst (common_cmake_defines s)) \<Longrightarrow> map_of (common_cmake_defines s) k = Some v \<Longrightarrow>
   map_of (b_cmake_defines (instrumented_builder e s c p)) k = Some v"
  by (simp add: instrumented_builder_def Let_def defines_configure)

lemma defines_pgo_llvm_builder:
  "distinct (map fst (common_cmake_defines s)) \<Longrightarrow> map_of (common_cmake_defines s) k = Some v \<Longrightarrow>
   map_of (b_cmake_defines (pgo_llvm_builder e s d i)) k = Some v"
  by (simp add: pgo_llvm_builder_def Let_def defines_configure split: option.splits)

lemma kind_pgo_llvm_builder [simp]: "b_kind (pgo_llvm_builder e s d i) = def_llvm_builder_cls s"
  by (simp add: pgo_llvm_builder_def Let_def new_builder_def split: option.splits)

lemma defines_final_configured:
  assumes "map_of (common_cmake_defines s) k = Some v" and "distinct (map fst (common_cmake_defines s))"
    and "k \<noteq> ''LLVM_ENABLE_LTO''" "k \<noteq> ''LLVM_PROFDATA_FILE''"
  shows "map_of (b_cmake_defines (final_configured e s)) k = Some v"
proof -
  have "map_of (b_cmake_defines (configure_llvm_builder (s\<lparr>final := f\<rparr>) f d t)) k = Some v" for f d t
    using assms(1,2) by (intro defines_configure) simp_all
  then show ?thesis
    using assms(3,4)
    by (simp add: final_configured_def Let_def update_conv' split: option.splits)
qed

lemma c2_bootstrap:
  "distinct (map fst (common_cmake_defines s0)) \<Longrightarrow> s = s0 \<Longrightarrow>
   ok (has_defines (common_cmake_defines s0) c1 fd) (\<lambda>s. s = s0) (bootstrap e s)"
  unfolding bootstrap_def
  by (rule ok_build_stage)
     (auto simp: ok_def bootstrap_body_def Let_def has_defines_Configure defines_bootstrap_builder)

lemma c2_setup:
  "defines_inv c1 fd s \<Longrightarrow>
   ok (has_defines c0 c1 fd) (\<lambda>b. defines_inv c1 fd (s\<lparr>instrumented := Some b\<rparr>))
     (setup_instrumentation e s c)"
  by (auto simp: ok_def setup_instrumentation_def defines_inv_def split: option.splits)

lemma c2_instrumentation:
  "defines_inv c1 fd s \<Longrightarrow> ok (has_defines c0 c1 fd) (defines_inv c1 fd) (instrumentation e s c)"
  unfolding instrumentation_def
  by (rule ok_build_stage)
     (auto simp: ok_def instrumentation_body_def setup_instrumentation_def defines_inv_def
        has_defines_Configure defines_instrumented_builder split: option.splits)

lemma c2_workloads:
  assumes "defines_inv c1 fd s"
  shows "\<forall>ev \<in> set (profiling_workloads e s c i p). has_defines c0 c1 fd ev"
proof -
  have w: "\<forall>ev \<in> set (snd (reconcile (kernel_pgo_targets p))). has_defines c0 c1 fd ev"
    by (auto dest!: reconcile_warnings)
  show ?thesis
    using assms w
    by (auto simp: profiling_workloads_def Let_def defines_inv_def has_defines_Configure
        defines_pgo_llvm_builder)
qed

lemma c2_profiling:
  "defines_inv c1 fd s \<Longrightarrow> ok (has_defines c0 c1 fd) (defines_inv c1 fd) (profiling e s c)"
  unfolding profiling_def
  apply (rule ok_build_stage)
  using c2_workloads[of c1 fd s e c]
    apply (auto simp: ok_def profiling_body_def profiling_instrumented_def
      setup_instrumentation_def fst_bind snd_bind split: option.splits sum.splits)
  done

lemma defines_bolt_setup [simp]:
  "b_cmake_defines (fst (bolt_setup e s f)) = b_cmake_defines f"
  "b_folders_build (fst (bolt_setup e s f)) = b_folders_build f"
  "b_kind (fst (bolt_setup e s f)) = b_kind f"
  by (simp_all add: bolt_setup_def Let_def)

lemma defines_stage1_only_setup:
  "stage1_only_setup s f = (s1, f1, ev) \<Longrightarrow>
   b_cmake_defines f1 = b_cmake_defines f \<and> b_folders_build f1 = b_folders_build f"
  by (auto simp: stage1_only_setup_def append_bolt_project_def Let_def split: if_splits prod.splits)

lemma folder_final_configured [simp]: "b_folders_build (final_configured e s) = Some (final_dir s)"
  by (simp add: final_configured_def Let_def split: option.splits)

lemma c2_final:
  assumes "defines_inv c1 fd s"
  shows "ok (has_defines c0 c1 fd) (\<lambda>s. True) (final_step e s)"
proof -
  obtain s1 f1 ev1 where a: "stage1_only_setup s (final_configured e s) = (s1, f1, ev1)"
    by (cases "stage1_only_setup s (final_configured e s)") auto
  obtain f2 ev2 where b: "bolt_setup e s1 f1 = (f2, ev2)"
    by (cases "bolt_setup e s1 f1") auto
  have f2: "f2 = fst (bolt_setup e s1 f1)" using b by simp
  have k: "b_kind f2 \<noteq> LLVMBootstrapBuilder" "b_kind (final_configured e s) \<noteq> LLVMBootstrapBuilder"
    using kind_stage1_only_setup[OF a] assms by (simp_all add: f2 defines_inv_def)
  have d: "has_defines c0 c1 fd (Configure (final_configured e s))"
    using assms k defines_final_configured[of s _ _ e]
    by (auto simp: has_defines_Configure defines_inv_def)
  have d2: "has_defines c0 c1 fd (Configure f2)"
    using d k defines_stage1_only_setup[OF a] by (simp add: has_defines_Configure f2)
  have ev: "ev1 = [] \<or> ev1 = [CheckDependencies (final_configured e s)]"
       "ev2 = [] \<or> ev2 = [ConstructKernel]"
    using kind_stage1_only_setup[OF a] kind_bolt_setup[OF b] by auto
  show ?thesis
    unfolding final_step_def
    apply (rule ok_build_stage)
    using d d2 ev
      apply (auto simp: ok_def final_step_body_def final_step_events_def a b)
    done
qed

lemma map_of_update_defines:
  "map_of (common_cmake_defines (update_defines s)) k =
     (if k = ''CMAKE_BUILD_TYPE'' \<and> truthy (build_type (args s)) then build_type (args s)
      else if (k = ''CMAKE_C_FLAGS'' \<or> k = ''CMAKE_CXX_FLAGS'') \<and> map_of (common_cmake_defines s) k = None
      then Some [] else map_of (common_cmake_defines s) k)"
  by (cases "build_type (args s)")
     (auto simp: update_defines_def Let_def dict_has_def update_conv' opt_list_def)


lemma kernel_builds_append [simp]: "kernel_builds (xs @ ys) = kernel_builds xs @ kernel_builds ys"
  by (induction xs rule: kernel_builds.induct) simp_all



lemma init_set_cspgo:
  "LLVMStages_init e (a\<lparr>cspgo := c\<rparr>) src bf kv =
     (case LLVMStages_init e a src bf kv of
        (Inl err, t) \<Rightarrow> (Inl err, t)
      | (Inr s, t) \<Rightarrow> (Inr (set_cspgo c s), t))"
proof -
  have 1: "prepare_linux e (a\<lparr>cspgo := c\<rparr>) src kv = prepare_linux e a src kv"
    by (simp add: prepare_linux_def Let_def)
  have 2: "prepare_llvm e (a\<lparr>cspgo := c\<rparr>) src = prepare_llvm e a src"
    by (simp add: prepare_llvm_def Let_def)
  have 3: "resolve_final e (a\<lparr>cspgo := c\<rparr>) f = resolve_final e a f" for f
    by (simp add: resolve_final_def default_cls_def resolved_targets_def resolved_projects_def Let_def)
  have 4: "bolt_warnings e (a\<lparr>cspgo := c\<rparr>) fin f = bolt_warnings e a fin f" for fin f
    by (simp add: bolt_warnings_def Let_def)
  have 0: "initial_defines (a\<lparr>cspgo := c\<rparr>) = initial_defines a"
    by (simp add: initial_defines_def Let_def)
  have 5: "compute_common_defines (a\<lparr>cspgo := c\<rparr>) = compute_common_defines a"
    by (simp add: compute_common_defines_def 0 cong: option.case_cong)
  show ?thesis
    unfolding LLVMStages_init_def 1 2 3 4 5
    by (auto simp: bind_def set_cspgo_def default_cls_def split: prod.splits sum.splits)
qed

lemma run_stages_no_pgo:
  assumes "\<not> truthy (pgo (args s))"
  shows "run_stages e s =
     (if truthy (stage (args s)) then
        (if \<not> build_stage1_only (args s) \<and> stage (args s) = Some ''bootstrap'' then
           (Inl (SystemExit 0),
            PrintHeader ''Building LLVM (bootstrap)'' # snd (bootstrap_body e s) @
            [PrintInfo ''Building LLVM (bootstrap) done.''])
         else if stage (args s) = Some ''final'' then
           (Inl (SystemExit 0),
            PrintHeader ''Building LLVM (final)'' # final_step_events e (update_defines s) @
            [PrintInfo ''Building LLVM (final) done.''])
         else (Inr (), [PrintDuration]))
      else
        (Inr (),
         (if \<not> build_stage1_only (args s) then
            PrintHeader ''Building LLVM (bootstrap)'' # snd (bootstrap_body e s) else []) @
         PrintHeader ''Building LLVM (final)'' # final_step_events e (update_defines s) @
         [PrintDuration]))"
  using assms
  by (auto simp: run_stages_def pgo_stages_def final_stage_def bootstrap_eq final_step_eq)

lemma bootstrap_body_set_cspgo:
  "snd (bootstrap_body e (set_cspgo c s)) = snd (bootstrap_body e s)"
  by (simp add: bootstrap_body_def bootstrap_builder_def configure_llvm_builder_def set_cspgo_def
      Let_def)

lemma update_defines_set_cspgo: "update_defines (set_cspgo c s) = set_cspgo c (update_defines s)"
  by (simp add: update_defines_def set_cspgo_def Let_def)

lemma configure_set_cspgo:
  "configure_llvm_builder (set_cspgo c s) i d t = configure_llvm_builder s i d t"
  by (simp add: configure_llvm_builder_def set_cspgo_def Let_def split: option.splits)

lemma final_configured_set_cspgo: "final_configured e (set_cspgo c s) = final_configured e s"
  by (simp add: final_configured_def configure_llvm_builder_def set_cspgo_def Let_def
      cong: option.case_cong if_cong)

lemma bolt_setup_set_cspgo: "bolt_setup e (set_cspgo c s) f = bolt_setup e s f"
  by (simp add: bolt_setup_def set_cspgo_def Let_def)

lemma stage1_only_setup_set_cspgo:
  "stage1_only_setup (set_cspgo c s) f =
     (case stage1_only_setup s f of (s1, f1, ev) \<Rightarrow> (set_cspgo c s1, f1, ev))"
  by (simp add: stage1_only_setup_def append_bolt_project_def set_cspgo_def Let_def)

lemma final_step_events_set_cspgo0: "final_step_events e (set_cspgo c s) = final_step_events e s"
  by (cases "stage1_only_setup s (final_configured e s)")
     (simp add: final_step_events_def final_configured_set_cspgo stage1_only_setup_set_cspgo
        bolt_setup_set_cspgo)

lemma final_step_events_set_cspgo:
  "final_step_events e (update_defines (set_cspgo c s)) = final_step_events e (update_defines s)"
  by (simp add: update_defines_set_cspgo final_step_events_set_cspgo0)

lemma run_stages_set_cspgo:
  assumes "\<not> truthy (pgo (args s))"
  shows "run_stages e (set_cspgo c s) = run_stages e s"
proof -
  have a: "\<not> truthy (pgo (args (set_cspgo c s)))"
    using assms by (simp add: set_cspgo_def)
  have f: "stage (args (set_cspgo c s)) = stage (args s)"
     "build_stage1_only (args (set_cspgo c s)) = build_stage1_only (args s)"
    by (simp_all add: set_cspgo_def)
  show ?thesis
    by (simp only: run_stages_no_pgo[OF a] run_stages_no_pgo[OF assms] f
        bootstrap_body_set_cspgo final_step_events_set_cspgo)
qed

lemma no_pgo_bootstrap_body: "\<forall>ev \<in> set (snd (bootstrap_body e s)). no_pgo_event ev"
  by (simp add: bootstrap_body_def Let_def no_pgo_event_def)

lemma no_pgo_final_step_events: "\<forall>ev \<in> set (final_step_events e s). no_pgo_event ev"
  using final_step_events_shape[of e s] by (auto simp: no_pgo_event_def)

lemma no_pgo_run_stages:
  assumes "\<not> truthy (pgo (args s))"
  shows "(\<forall>ev \<in> set (snd (run_stages e s)). no_pgo_event ev) \<and>
         (fst (run_stages e s) = Inr () \<or> fst (run_stages e s) = Inl (SystemExit 0))"
  using no_pgo_bootstrap_body[of e s] no_pgo_final_step_events[of e "update_defines s"]
  by (auto simp: run_stages_no_pgo[OF assms] no_pgo_event_def)

lemma bind_init_set_cspgo:
  assumes "\<not> truthy (pgo a)"
  shows "bind (LLVMStages_init e (a\<lparr>cspgo := c\<rparr>) src bf kv) (run_stages e) =
         bind (LLVMStages_init e a src bf kv) (run_stages e)"
proof (cases "LLVMStages_init e a src bf kv")
  case (Pair r t)
  show ?thesis
  proof (cases r)
    case (Inl err)
    then show ?thesis
      using Pair by (simp add: init_set_cspgo)
  next
    case (Inr s0)
    then have "fst (LLVMStages_init e a src bf kv) = Inr s0"
      using Pair by simp
    then have "\<not> truthy (pgo (args s0))"
      using assms init_Inr(1) by simp
    then have "run_stages e (set_cspgo c s0) = run_stages e s0"
      by (rule run_stages_set_cspgo)
    then show ?thesis
      using Pair Inr by (simp add: init_set_cspgo)
  qed
qed

lemma build_llvm_set_cspgo:
  assumes "\<not> truthy (pgo a)"
  shows "build_llvm e (a\<lparr>cspgo := c\<rparr>) tc = build_llvm e a tc"
  by (simp add: build_llvm_def Let_def bind_init_set_cspgo[OF assms])

lemma prepare_linux_given:
  assumes w: "bolt a \<or> (truthy (pgo a) \<and> filter (contains ''kernel'') (opt_list (pgo a)) \<noteq> [])"
    and lf: "linux_folder a = Some f" "f \<noteq> []"
  shows "prepare_linux e a src kv =
     (if \<not> path_exists e (resolve e f) then (Inl (LinuxFolderMissing f), [])
      else if \<not> path_exists e (path_join (resolve e f) ''Makefile'') then
        (Inl (LinuxNotKernelTree f), [])
      else if tuple_less (get_version e ((lsm_init e)\<lparr>location := Some (resolve e f)\<rparr>))
                (MINIMUM_SUPPORTED_VERSION e) then
        (Inl (LinuxTooOld
               (str_join ''.'' (map str_int
                  (get_version e ((lsm_init e)\<lparr>location := Some (resolve e f)\<rparr>))))
               (str_join ''.'' (map str_int (MINIMUM_SUPPORTED_VERSION e)))), [])
      else (Inr (Some ((lsm_init e)\<lparr>location := Some (resolve e f)\<rparr>)), []))"
proof -
  have t: "truthy (linux_folder a)" "opt_list (linux_folder a) = f"
    using lf by (cases f; simp add: opt_list_def)+
  show ?thesis
    using w by (simp add: prepare_linux_def t Let_def)
qed

lemma init_not_linux_error:
  assumes "prepare_linux e a src kv = (Inr l, t)"
    and "LLVMStages_init e a src bf kv = (Inl err, t')"
  shows "\<not> is_linux_error err"
  using assms
  by (auto simp: LLVMStages_init_def bind_def prepare_llvm_def resolve_final_def
      compute_common_defines_def Let_def
      split: prod.splits sum.splits if_splits option.splits)

lemma ex_stages_init:
  "\<not> isl (fst (LLVMStages_init ex_env a ''/src'' ''/b'' DEFAULT_KERNEL_FOR_PGO)) \<Longrightarrow>
   fst (LLVMStages_init ex_env a ''/src'' ''/b'' DEFAULT_KERNEL_FOR_PGO) = Inr (ex_stages a)"
  by (cases "fst (LLVMStages_init ex_env a ''/src'' ''/b'' DEFAULT_KERNEL_FOR_PGO)")
     (simp_all add: ex_stages_def)

section \<open>The reconciliation loop and the kernel builders\<close>

text \<open>
  The kernel items of a command line that the parser accepts are among six names; a slim
  one is its configuration followed by \<open>-slim\<close> and has two parts.
\<close>

lemma kernel_choices:
  "kernel_pgo_targets pgo_choices =
     [''defconfig'', ''allmodconfig'', ''allyesconfig'',
      ''defconfig-slim'', ''allmodconfig-slim'', ''allyesconfig-slim'']"
  by code_simp





lemma startswith_refl [simp]: "startswith s s"
  by (induction s) simp_all

lemma startswith_append [simp]: "startswith (s @ t) s"
  by (induction s) simp_all

lemma contains_startswith: "startswith t s \<Longrightarrow> contains s t"
  by (cases t; cases s) simp_all

lemma contains_append: "contains s (a @ s @ b)"
  by (induction a) (simp_all add: contains_startswith)

lemma contains_slim [simp]: "contains ''slim'' (X @ ''-slim'')"
  using contains_append[of "''slim''" "X @ ''-''" "[]"] by simp





lemma reconcile_loop_end: "reconcile_loop (length A) A ws = (A, ws)"
  by (subst reconcile_loop.simps) simp



















text \<open>
  The loop removes from the list that it runs over. When the removed item stands before
  the index, the item behind the current one moves into the current position and is
  never visited: in the first list \<open>allmodconfig-slim\<close> is stepped over and
  \<open>allmodconfig\<close> stays. \<open>list.remove\<close> deletes one occurrence: in the second list one
  \<open>defconfig\<close> stays. The kernel builder then builds the full variant, since a later
  item of a configuration overwrites the matrix entry of an earlier one.
\<close>

lemma reconcile_loop_skips:
  "reconcile [''defconfig'', ''defconfig-slim'', ''allmodconfig-slim'', ''allmodconfig''] =
     ([''defconfig-slim'', ''allmodconfig-slim'', ''allmodconfig''], [both_warning ''defconfig''])"
  "reconcile [''defconfig'', ''defconfig'', ''defconfig-slim''] =
     ([''defconfig'', ''defconfig-slim''], [both_warning ''defconfig''])"
  "map k_matrix (kernel_builds (snd (build_llvm ex_env
      (ex_args\<lparr>pgo := Some [''kernel-defconfig'', ''kernel-defconfig-slim'',
                            ''kernel-allmodconfig-slim'', ''kernel-allmodconfig''],
               stage := Some ''profiling''\<rparr>) ''/tc''))) =
     [[(''defconfig'', [''X86'']), (''allmodconfig'', [''AArch64'', ''ARM'', ''X86''])]]"
  by code_simp+

section \<open>The claims\<close>

subsection \<open>C1: a full and a slim kernel benchmark of the same configuration\<close>




subsection \<open>C3: a run restricted to one stage\<close>

text \<open>
  C3 says that with \<open>--stage\<close> set to one of the six names exactly one stage operation
  runs and the process exits with status 0 right after it. The guards of lines 493 to
  509 also look at the other options: with \<open>--stage bootstrap --build-stage1-only\<close> no
  stage operation runs at all, and the script ends by printing its duration.
\<close>

theorem C3_counterexample:
  "stage_count (snd (build_llvm ex_env
      (ex_args\<lparr>stage := Some ''bootstrap'', build_stage1_only := True\<rparr>) ''/tc'')) = 0 \<and>
   fst (build_llvm ex_env
      (ex_args\<lparr>stage := Some ''bootstrap'', build_stage1_only := True\<rparr>) ''/tc'') = Inr ()"
  by code_simp

text \<open>
  C3 as amended: with \<open>--stage n\<close> for one of the six names, the stage \<open>n\<close> runs if the
  configuration enables it (bootstrap unless \<open>--build-stage1-only\<close>, the PGO stages with
  \<open>--pgo\<close>, the CSPGO stages with \<open>--pgo\<close> and \<open>--cspgo\<close>, final always); then exactly
  one stage operation is invoked, it is the one named, and the process exits with status
  0 right after its completion notice. That it is the one named is an equation: the trace
  of the run is the trace of \<open>stage_operation\<close> for \<open>n\<close>, which itself ends in
  \<open>sys.exit(0)\<close>, called on the orchestrator after \<open>update_defines\<close> (before it for
  \<open>bootstrap\<close>); only before \<open>final\<close>, with PGO and no instrumented builder retained,
  the script first constructs that builder. Otherwise no stage operation is invoked and
  the script ends normally. The statement is about everything that follows the
  construction of the orchestrator, for any orchestrator.
\<close>

theorem single_stage:
  assumes n: "stage (args s) = Some n" and names: "n \<in> set stage_names"
  shows "stage_count (snd (run_stages e s)) = (if stage_enabled (args s) n then 1 else 0) \<and>
         (if stage_enabled (args s) n then
            fst (run_stages e s) = Inl (SystemExit 0) \<and>
            PrintHeader (title_of_stage n) \<in> set (snd (run_stages e s)) \<and>
            last (snd (run_stages e s)) = PrintInfo (title_of_stage n @ '' done.'') \<and>
            (if n = ''final'' \<and> truthy (pgo (args s)) \<and> instrumented s = None then
               \<exists>b. setup_instrumentation e (update_defines s) (cspgo (args s)) =
                      (Inr b, [Construct (instrumented_cls (cspgo (args s)) (full_toolchain (args s)))]) \<and>
                    fst (stage_operation e ((update_defines s)\<lparr>instrumented := Some b\<rparr>) n) =
                      Inl (SystemExit 0) \<and>
                    snd (run_stages e s) =
                      Construct (instrumented_cls (cspgo (args s)) (full_toolchain (args s))) #
                      snd (stage_operation e ((update_defines s)\<lparr>instrumented := Some b\<rparr>) n)
             else
               fst (stage_operation e (if n = ''bootstrap'' then s else update_defines s) n) =
                 Inl (SystemExit 0) \<and>
               snd (run_stages e s) =
                 snd (stage_operation e (if n = ''bootstrap'' then s else update_defines s) n))
          else run_stages e s = (Inr (), [PrintDuration]))"
proof -
  have t: "truthy (stage (args s))"
    using n names by (auto simp: stage_names_def)
  have upd: "args (update_defines s) = args s" "instrumented (update_defines s) = instrumented s"
    by (simp_all add: update_defines_def Let_def)
  show ?thesis
  proof (cases "pgo (args s)")
    case None
    then show ?thesis
      using n names
      by (auto simp: run_stages_def pgo_stages_def final_stage_def stage_names_def
          stage_enabled_def title_of_stage_def bootstrap_eq final_step_eq upd stage_titles_def
          stage_operation_def)
  next
    case (Some p)
    then have p2: "pgo (args (update_defines s)) = Some p"
      by (simp add: upd)
    have p3: "pgo (args ((update_defines s)\<lparr>instrumented := x\<rparr>)) = Some p" for x
      by (simp add: upd Some)
    show ?thesis
      using n names Some
      by (auto simp: run_stages_def pgo_stages_def final_stage_def stage_names_def
          stage_enabled_def title_of_stage_def bootstrap_eq final_step_eq upd stage_titles_def
          instrumentation_eq[OF p2] profiling_eq[OF p2] setup_instrumentation_Some[OF p2]
          stage_operation_def)
  qed
qed

theorem C3_witness:
  "stage (args (ex_stages (ex_args\<lparr>pgo := Some [''llvm''], cspgo := True,
                                    stage := Some ''csinstrumentation''\<rparr>))) =
     Some ''csinstrumentation'' \<and>
   ''csinstrumentation'' \<in> set stage_names \<and>
   stage_count (snd (run_stages ex_env (ex_stages (ex_args\<lparr>pgo := Some [''llvm''], cspgo := True,
                                    stage := Some ''csinstrumentation''\<rparr>)))) = 1 \<and>
   fst (run_stages ex_env (ex_stages (ex_args\<lparr>pgo := Some [''llvm''], cspgo := True,
                                    stage := Some ''csinstrumentation''\<rparr>))) = Inl (SystemExit 0) \<and>
   snd (run_stages ex_env (ex_stages (ex_args\<lparr>pgo := Some [''llvm''], cspgo := True,
                                    stage := Some ''csinstrumentation''\<rparr>))) =
     snd (instrumentation ex_env
       (update_defines (ex_stages (ex_args\<lparr>pgo := Some [''llvm''], cspgo := True,
                                    stage := Some ''csinstrumentation''\<rparr>))) True)"
  using single_stage[of "ex_stages (ex_args\<lparr>pgo := Some [''llvm''], cspgo := True,
                                    stage := Some ''csinstrumentation''\<rparr>)"
                        "''csinstrumentation''" ex_env]
  by (auto simp: stage_names_def stage_enabled_def stage_operation_def)

subsection \<open>C4: context-sensitive instrumentation after plain instrumentation\<close>

text \<open>
  C4 says that \<open>cs-instrumentation\<close> never configures or builds unless the plain
  instrumentation stage has completed in the same run. With
  \<open>--stage csinstrumentation\<close> the script skips the plain stage and runs the
  context-sensitive one alone: the only builder configured in that run is the
  context-sensitive instrumented one.
\<close>

theorem C4_counterexample:
  "\<not> cs_after_plain False
       (snd (build_llvm ex_env
          (ex_args\<lparr>pgo := Some [''llvm''], cspgo := True, stage := Some ''csinstrumentation''\<rparr>)
          ''/tc'')) \<and>
   map b_kind (configured (snd (build_llvm ex_env
          (ex_args\<lparr>pgo := Some [''llvm''], cspgo := True, stage := Some ''csinstrumentation''\<rparr>)
          ''/tc''))) = [LLVMSlimCSPGOInstrumentedBuilder]"
  by code_simp

text \<open>
  C4 as amended: in a run that is not restricted to one stage, every \<open>configure\<close> and
  \<open>build\<close> of a context-sensitive instrumented builder comes after the \<open>build\<close> of a
  plain instrumented builder.
\<close>

theorem cs_instrumentation_after_plain:
  assumes "\<not> truthy (stage a)"
  shows "cs_after_plain False (snd (build_llvm e a tc))"
proof -
  let ?init = "LLVMStages_init e a (path_join tc ''src'')
             (if truthy (build_folder a) then resolve e (opt_list (build_folder a))
              else path_join tc ''build/llvm'') DEFAULT_KERNEL_FOR_PGO"
  have q: "neutral (snd ?init)"
    by (rule quiet_neutral) (rule quiet_init)
  show ?thesis
  proof (cases "fst ?init")
    case (Inl err)
    then have "snd (build_llvm e a tc) = snd ?init"
      by (simp add: build_llvm_eq snd_bind)
    then show ?thesis
      using cs_after_plain_neutral[OF q, of False "[]"] by simp
  next
    case (Inr s0)
    then have t: "snd (build_llvm e a tc) = snd ?init @ snd (run_stages e s0)"
      by (simp add: build_llvm_eq snd_bind)
    have "cs_after_plain False (snd (run_stages e s0))"
      using assms init_Inr(1,3)[OF Inr] by (intro cs_run_stages) simp_all
    then show ?thesis
      by (simp add: t cs_after_plain_neutral[OF q])
  qed
qed

theorem C4_witness:
  "\<not> truthy (stage (ex_args\<lparr>pgo := Some [''llvm''], cspgo := True\<rparr>)) \<and>
   cs_after_plain False
     (snd (build_llvm ex_env (ex_args\<lparr>pgo := Some [''llvm''], cspgo := True\<rparr>) ''/tc''))"
  using cs_instrumentation_after_plain
    [of "ex_args\<lparr>pgo := Some [''llvm''], cspgo := True\<rparr>" ex_env "''/tc''"]
  by (simp add: ex_args_def)

subsection \<open>C2: the common cmake defines in every stage\<close>

text \<open>
  C2 says that the common defines computed by the constructor are the same in every
  stage's builder. \<open>update_defines\<close> runs between the bootstrap stage and the later
  ones and changes the common dictionary: it adds \<open>CMAKE_C_FLAGS\<close> and
  \<open>CMAKE_CXX_FLAGS\<close> when they are missing and sets \<open>CMAKE_BUILD_TYPE\<close> to the user's
  build type. With \<open>-D CMAKE_BUILD_TYPE=Debug --build-type Release\<close> the bootstrap
  builder is configured with \<open>Debug\<close> and without the two flag keys, the final builder
  with \<open>Release\<close> and with them.
\<close>

theorem C2_counterexample:
  "map b_kind (configured (snd (build_llvm ex_env
      (ex_args\<lparr>defines' := Some [''CMAKE_BUILD_TYPE=Debug''], build_type := Some ''Release''\<rparr>)
      ''/tc''))) = [LLVMBootstrapBuilder, LLVMSlimBuilder] \<and>
   map b_cmake_defines (configured (snd (build_llvm ex_env
      (ex_args\<lparr>defines' := Some [''CMAKE_BUILD_TYPE=Debug''], build_type := Some ''Release''\<rparr>)
      ''/tc''))) =
     [[(''CLANG_VENDOR'', ''ClangBuiltLinux''), (''LLD_VENDOR'', ''ClangBuiltLinux''),
       (''CMAKE_BUILD_TYPE'', ''Debug'')],
      [(''CLANG_VENDOR'', ''ClangBuiltLinux''), (''LLD_VENDOR'', ''ClangBuiltLinux''),
       (''CMAKE_BUILD_TYPE'', ''Release''), (''CMAKE_C_FLAGS'', []), (''CMAKE_CXX_FLAGS'', [])]]"
  by code_simp

text \<open>
  C2 as amended: the common defines are computed by the constructor and changed once, by
  \<open>update_defines\<close>, after the bootstrap stage: it adds \<open>CMAKE_C_FLAGS\<close> and
  \<open>CMAKE_CXX_FLAGS\<close> (empty) when absent and sets \<open>CMAKE_BUILD_TYPE\<close> when a build type
  was given, leaving every other key as it was. The bootstrap builder is checked,
  configured and built with every define of the constructor's dictionary, and every later
  builder with every define of the updated one, except that the final builder sets
  \<open>LLVM_ENABLE_LTO\<close> and \<open>LLVM_PROFDATA_FILE\<close> itself.
\<close>

theorem common_defines_per_stage:
  assumes i: "fst (LLVMStages_init e a src bf kv) = Inr s0"
  shows "compute_common_defines a = Inr (common_cmake_defines s0) \<and>
         (\<forall>b. CheckDependencies b \<in> set (snd (run_stages e s0)) \<or>
               Configure b \<in> set (snd (run_stages e s0)) \<or>
               Build b \<in> set (snd (run_stages e s0)) \<longrightarrow>
            (if b_kind b = LLVMBootstrapBuilder then
               \<forall>k v. map_of (common_cmake_defines s0) k = Some v \<longrightarrow>
                     map_of (b_cmake_defines b) k = Some v
             else
               \<forall>k v. map_of (common_cmake_defines (update_defines s0)) k = Some v \<longrightarrow>
                 map_of (b_cmake_defines b) k = Some v \<or>
                 b_folders_build b = Some (final_dir s0) \<and>
                 (k = ''LLVM_ENABLE_LTO'' \<or> k = ''LLVM_PROFDATA_FILE''))) \<and>
         (\<forall>k. map_of (common_cmake_defines (update_defines s0)) k =
            (if k = ''CMAKE_BUILD_TYPE'' \<and> truthy (build_type a) then build_type a
             else if (k = ''CMAKE_C_FLAGS'' \<or> k = ''CMAKE_CXX_FLAGS'') \<and>
                     map_of (common_cmake_defines s0) k = None
             then Some [] else map_of (common_cmake_defines s0) k))"
proof -
  let ?c0 = "common_cmake_defines s0" and ?c1 = "common_cmake_defines (update_defines s0)"
  let ?P = "has_defines ?c0 ?c1 (final_dir s0)"
  have "ok ?P (\<lambda>u. True) (run_stages e s0)"
  proof (rule ok_run_stages[where I = "\<lambda>s. s = s0" and J = "defines_inv ?c1 (final_dir s0)"])
    show "s0 = s0" by simp
  next
    fix s assume "s = s0"
    then show "defines_inv ?c1 (final_dir s0) (update_defines s)"
      using init_Inr[OF i] distinct_update_defines[OF distinct_compute_common_defines[OF init_Inr(8)[OF i]]]
      by (simp add: defines_inv_def default_cls_def)
  next
    show "?P PrintDuration"
      by simp
  next
    fix s assume "s = s0"
    then show "ok ?P (\<lambda>s. s = s0) (bootstrap e s)"
      by (rule c2_bootstrap[OF distinct_compute_common_defines[OF init_Inr(8)[OF i]]])
  qed (rule c2_instrumentation c2_profiling c2_setup c2_final; assumption)+
  then have "\<forall>ev \<in> set (snd (run_stages e s0)). ?P ev"
    by (simp add: ok_def)
  then have ev: "\<forall>b. CheckDependencies b \<in> set (snd (run_stages e s0)) \<or>
               Configure b \<in> set (snd (run_stages e s0)) \<or>
               Build b \<in> set (snd (run_stages e s0)) \<longrightarrow>
            (if b_kind b = LLVMBootstrapBuilder then
               \<forall>k v. map_of ?c0 k = Some v \<longrightarrow> map_of (b_cmake_defines b) k = Some v
             else
               \<forall>k v. map_of ?c1 k = Some v \<longrightarrow>
                 map_of (b_cmake_defines b) k = Some v \<or>
                 b_folders_build b = Some (final_dir s0) \<and>
                 (k = ''LLVM_ENABLE_LTO'' \<or> k = ''LLVM_PROFDATA_FILE''))"
    unfolding has_defines_def by blast
  show ?thesis
    using ev init_Inr(1,8)[OF i] map_of_update_defines[of s0] by simp
qed

theorem C2_witness:
  "fst (LLVMStages_init ex_env
      (ex_args\<lparr>defines' := Some [''CMAKE_BUILD_TYPE=Debug''], build_type := Some ''Release''\<rparr>)
      ''/src'' ''/b'' DEFAULT_KERNEL_FOR_PGO) =
     Inr (ex_stages (ex_args\<lparr>defines' := Some [''CMAKE_BUILD_TYPE=Debug''],
                             build_type := Some ''Release''\<rparr>)) \<and>
   map_of (common_cmake_defines (update_defines (ex_stages
      (ex_args\<lparr>defines' := Some [''CMAKE_BUILD_TYPE=Debug''], build_type := Some ''Release''\<rparr>))))
      ''CMAKE_BUILD_TYPE'' = Some ''Release''"
proof -
  let ?a = "ex_args\<lparr>defines' := Some [''CMAKE_BUILD_TYPE=Debug''], build_type := Some ''Release''\<rparr>"
  have "\<not> isl (fst (LLVMStages_init ex_env ?a ''/src'' ''/b'' DEFAULT_KERNEL_FOR_PGO))"
    by code_simp
  then have i: "fst (LLVMStages_init ex_env ?a ''/src'' ''/b'' DEFAULT_KERNEL_FOR_PGO) =
                  Inr (ex_stages ?a)"
    by (rule ex_stages_init)
  show ?thesis
    using i common_defines_per_stage[OF i] by (simp add: ex_args_def)
qed

subsection \<open>C5: a run without bootstrapping\<close>

text \<open>
  C5: with \<open>--build-stage1-only\<close> the bootstrap stage is never invoked (its header is not
  printed and no bootstrap builder is constructed), and whenever the builder of the
  final build folder is configured, its tools are the host's.
\<close>

theorem stage1_only_uses_host_tools:
  assumes "build_stage1_only a"
  shows "PrintHeader ''Building LLVM (bootstrap)'' \<notin> set (snd (build_llvm e a tc)) \<and>
         Construct LLVMBootstrapBuilder \<notin> set (snd (build_llvm e a tc)) \<and>
         (\<forall>b. Configure b \<in> set (snd (build_llvm e a tc)) \<and>
              b_folders_build b =
                Some (path_join (if truthy (build_folder a) then resolve e (opt_list (build_folder a))
                                 else path_join tc ''build/llvm'') ''final'') \<longrightarrow>
              (\<exists>t. b_tools b = Some t \<and> origin t = HostTools))"
proof -
  let ?bf = "if truthy (build_folder a) then resolve e (opt_list (build_folder a))
             else path_join tc ''build/llvm''"
  have all: "\<forall>ev \<in> set (snd (build_llvm e a tc)). host_final (path_join ?bf ''final'') ev"
  proof (rule ok_build_llvm)
    fix ev assume "builder_of ev = None" "\<not> is_stage_header ev" "default_construct ev"
    then show "host_final (path_join ?bf ''final'') ev"
      by (cases ev) (auto simp: host_final_def stage_titles_def)
  next
    fix s0
    assume i: "fst (LLVMStages_init e a (path_join tc ''src'') ?bf DEFAULT_KERNEL_FOR_PGO) = Inr s0"
    have inv: "stage1_inv ?bf s0"
      using assms(1) init_Inr[OF i] init_dirs[OF i]
      by (simp add: stage1_inv_def default_cls_def)
    show "ok (host_final (path_join ?bf ''final'')) (\<lambda>u. True) (run_stages e s0)"
    proof (rule ok_run_stages[where I = "stage1_inv ?bf" and J = "stage1_inv ?bf"])
      show "stage1_inv ?bf s0" by (rule inv)
    next
      fix s assume "stage1_inv ?bf s" "\<not> build_stage1_only (args s)"
      then show "ok (host_final (path_join ?bf ''final'')) (stage1_inv ?bf) (bootstrap e s)"
        by (simp add: stage1_inv_def)
    next
      fix s assume "stage1_inv ?bf s"
      then show "stage1_inv ?bf (update_defines s)"
        by (simp add: stage1_inv_def)
    next
      show "host_final (path_join ?bf ''final'') PrintDuration"
        by (simp add: host_final_def)
    qed (rule c5_instrumentation c5_profiling c5_setup c5_final; assumption)+
  qed
  have 1: "PrintHeader ''Building LLVM (bootstrap)'' \<notin> set (snd (build_llvm e a tc))"
    using all by (auto simp: host_final_def)
  have 2: "Construct LLVMBootstrapBuilder \<notin> set (snd (build_llvm e a tc))"
    using all by (auto simp: host_final_def)
  have 3: "\<forall>b. Configure b \<in> set (snd (build_llvm e a tc)) \<and>
              b_folders_build b = Some (path_join ?bf ''final'') \<longrightarrow>
              (\<exists>t. b_tools b = Some t \<and> origin t = HostTools)"
    using all unfolding host_final_def by blast
  show ?thesis
    using 1 2 3 by blast
qed

theorem C5_witness:
  "build_stage1_only (ex_args\<lparr>build_stage1_only := True\<rparr>) \<and>
   PrintHeader ''Building LLVM (bootstrap)'' \<notin>
     set (snd (build_llvm ex_env (ex_args\<lparr>build_stage1_only := True\<rparr>) ''/tc'')) \<and>
   Construct LLVMBootstrapBuilder \<notin>
     set (snd (build_llvm ex_env (ex_args\<lparr>build_stage1_only := True\<rparr>) ''/tc'')) \<and>
   map (map_option origin) (map b_tools (configured
     (snd (build_llvm ex_env (ex_args\<lparr>build_stage1_only := True\<rparr>) ''/tc'')))) = [Some HostTools]"
proof -
  have c: "map (map_option origin) (map b_tools (configured
     (snd (build_llvm ex_env (ex_args\<lparr>build_stage1_only := True\<rparr>) ''/tc'')))) = [Some HostTools]"
    by code_simp
  show ?thesis
    using c stage1_only_uses_host_tools[of "ex_args\<lparr>build_stage1_only := True\<rparr>" ex_env "''/tc''"]
    by simp
qed

subsection \<open>C6: the instrumented builder of \<open>profiling\<close>\<close>

text \<open>
  C6: \<open>profiling\<close>, called with PGO benchmarks, works with the instrumented builder that
  the orchestrator retains, constructing nothing; when none is retained, the first thing
  it does after its header is to construct one of the class that \<open>cspgo\<close> and
  \<open>--full-toolchain\<close> select, set up on the bootstrap tools, and the benchmarks come
  after that. The benchmarks and \<open>generate_profdata\<close> use that builder, and the only other
  LLVM builder constructed is the one of the \<open>llvm\<close> benchmark.
\<close>

theorem profiling_reuses_or_constructs:
  assumes pgo: "pgo (args s) = Some p"
    and i: "i = (case instrumented s of Some b \<Rightarrow> b | None \<Rightarrow> instrumented_builder e s c p)"
  shows "snd (profiling e s c) =
           PrintHeader ''Generating PGO profiles'' #
           (case instrumented s of
              Some b \<Rightarrow> []
            | None \<Rightarrow> [Construct (instrumented_cls c (full_toolchain (args s)))]) @
           profiling_workloads e s c i p @ [GenerateProfdata i] @
           (if truthy (stage (args s)) then [PrintInfo ''Generating PGO profiles done.''] else []) \<and>
         (\<forall>k. Construct k \<in> set (profiling_workloads e s c i p) \<longrightarrow> k = def_llvm_builder_cls s) \<and>
         (case instrumented s of
            Some b \<Rightarrow> i = b
          | None \<Rightarrow> b_kind i = instrumented_cls c (full_toolchain (args s)) \<and>
                    is_cspgo_kind (b_kind i) = c \<and>
                    b_tools i = Some (new_tools (StageTools (path_join (bootstrap_dir s) ''bin''))))"
proof -
  have w: "\<forall>ev \<in> set (snd (reconcile (kernel_pgo_targets p))). \<forall>k. ev \<noteq> Construct k"
    by (auto dest!: reconcile_warnings)
  have c: "\<forall>k. Construct k \<in> set (profiling_workloads e s c i p) \<longrightarrow> k = def_llvm_builder_cls s"
    using w by (auto simp: profiling_workloads_def Let_def)
  have k: "is_cspgo_kind (instrumented_cls c f) = c" for f
    by (cases c) simp_all
  have t: "b_tools (instrumented_builder e s c p) =
             Some (new_tools (StageTools (path_join (bootstrap_dir s) ''bin'')))"
    by (simp add: instrumented_builder_def configure_llvm_builder_def Let_def)
  show ?thesis
    using c k t
    by (cases "instrumented s")
       (simp_all add: profiling_eq[OF pgo] profiling_body_events[OF pgo] i)
qed

theorem C6_witness:
  "pgo (args (ex_stages (ex_args\<lparr>pgo := Some [''llvm''], stage := Some ''profiling''\<rparr>))) =
     Some [''llvm''] \<and>
   instrumented (ex_stages (ex_args\<lparr>pgo := Some [''llvm''], stage := Some ''profiling''\<rparr>)) = None \<and>
   take 2 (snd (profiling ex_env
      (ex_stages (ex_args\<lparr>pgo := Some [''llvm''], stage := Some ''profiling''\<rparr>)) False)) =
     [PrintHeader ''Generating PGO profiles'', Construct LLVMSlimInstrumentedBuilder]"
proof -
  let ?a = "ex_args\<lparr>pgo := Some [''llvm''], stage := Some ''profiling''\<rparr>"
  have "\<not> isl (fst (LLVMStages_init ex_env ?a ''/src'' ''/b'' DEFAULT_KERNEL_FOR_PGO))"
    by code_simp
  then have i: "fst (LLVMStages_init ex_env ?a ''/src'' ''/b'' DEFAULT_KERNEL_FOR_PGO) =
                  Inr (ex_stages ?a)"
    by (rule ex_stages_init)
  have n: "instrumented (ex_stages ?a) = None"
    using init_Inr(2)[OF i] .
  have p: "pgo (args (ex_stages ?a)) = Some [''llvm'']"
    by simp
  show ?thesis
    using n p profiling_reuses_or_constructs[OF p refl, of ex_env False]
    by (simp add: instrumented_cls_def ex_args_def)
qed

subsection \<open>C7: the targets and projects of the later stages\<close>

text \<open>
  C7: in every run, a builder that is configured or built with the tools of a stage
  (the instrumented builders, the builder of the \<open>llvm\<close> benchmark and the final builder
  after a bootstrap) has exactly the target list and the project list that the
  constructor resolved for the final builder.
\<close>

theorem later_stages_reuse_resolved_lists:
  assumes f: "folder = (if truthy (llvm_folder a) then resolve e (opt_list (llvm_folder a))
                        else path_join (path_join tc ''src'') ''llvm-project'')"
    and ev: "Configure b \<in> set (snd (build_llvm e a tc)) \<or> Build b \<in> set (snd (build_llvm e a tc))"
    and st: "b_tools b = Some t" "origin t = StageTools p"
  shows "b_targets b = resolved_targets e a folder \<and> b_projects b = resolved_projects e a folder"
proof -
  let ?T = "resolved_targets e a folder" and ?P = "resolved_projects e a folder"
  have all: "\<forall>ev \<in> set (snd (build_llvm e a tc)). resolved_lists ?T ?P ev"
  proof (rule ok_build_llvm)
    fix ev assume "builder_of ev = None" "\<not> is_stage_header ev" "default_construct ev"
    then show "resolved_lists ?T ?P ev"
      by (cases ev) (auto simp: resolved_lists_def)
  next
    fix s0
    assume i: "fst (LLVMStages_init e a (path_join tc ''src'')
             (if truthy (build_folder a) then resolve e (opt_list (build_folder a))
              else path_join tc ''build/llvm'') DEFAULT_KERNEL_FOR_PGO) = Inr s0"
    have inv: "lists_inv ?T ?P s0"
      using init_Inr[OF i] init_llvm_folder[OF i] f by (simp add: lists_inv_def)
    show "ok (resolved_lists ?T ?P) (\<lambda>u. True) (run_stages e s0)"
    proof (rule ok_run_stages[where I = "lists_inv ?T ?P" and J = "lists_inv ?T ?P"])
      show "lists_inv ?T ?P s0" by (rule inv)
    next
      fix s assume "lists_inv ?T ?P s"
      then show "lists_inv ?T ?P (update_defines s)"
        by (simp add: lists_inv_def)
    next
      show "resolved_lists ?T ?P PrintDuration"
        by (simp add: resolved_lists_def)
    qed (rule c7_bootstrap c7_instrumentation c7_profiling c7_setup c7_final; assumption)+
  qed
  show ?thesis
    using all ev st by (auto simp: resolved_lists_def)
qed

theorem C7_witness:
  "Configure (configured (snd (build_llvm ex_env ex_args ''/tc'')) ! 1) \<in>
     set (snd (build_llvm ex_env ex_args ''/tc'')) \<and>
   b_tools (configured (snd (build_llvm ex_env ex_args ''/tc'')) ! 1) =
     Some (new_tools (StageTools ''/tc/build/llvm/bootstrap/bin'')) \<and>
   b_targets (configured (snd (build_llvm ex_env ex_args ''/tc'')) ! 1) =
     [''AArch64'', ''ARM'', ''X86''] \<and>
   b_projects (configured (snd (build_llvm ex_env ex_args ''/tc'')) ! 1) = [''clang'', ''lld'']"
proof -
  let ?b = "configured (snd (build_llvm ex_env ex_args ''/tc'')) ! 1"
  have m: "Configure ?b \<in> set (snd (build_llvm ex_env ex_args ''/tc''))"
    by code_simp
  have t: "b_tools ?b = Some (new_tools (StageTools ''/tc/build/llvm/bootstrap/bin''))"
    by code_simp
  have o: "origin (new_tools (StageTools ''/tc/build/llvm/bootstrap/bin'')) =
             StageTools ''/tc/build/llvm/bootstrap/bin''"
    by (simp add: new_tools_def)
  show ?thesis
    using m t later_stages_reuse_resolved_lists[OF refl disjI1[OF m] t o]
    by (simp add: resolved_targets_def resolved_projects_def ex_args_def ex_env_def)
qed

subsection \<open>C8: one representative target for slim PGO and for BOLT\<close>



subsection \<open>C9: the checks on a Linux source folder\<close>

text \<open>
  C9 says that the constructor raises an error if and only if the Linux folder that the
  user gave does not exist, has no Makefile or is too old. These checks come first, but
  the constructor raises for other reasons after them: with a good Linux folder and an
  LLVM folder that does not exist it raises too.
\<close>

theorem C9_counterexample:
  "LLVMStages_init ex_env
     (ex_args\<lparr>bolt := True, linux_folder := Some ''/linux'', llvm_folder := Some ''/nowhere''\<rparr>)
     ''/src'' ''/b'' DEFAULT_KERNEL_FOR_PGO = (Inl (LLVMFolderMissing ''/nowhere''), []) \<and>
   path_exists ex_env (resolve ex_env ''/linux'') \<and>
   path_exists ex_env (path_join (resolve ex_env ''/linux'') ''Makefile'') \<and>
   \<not> tuple_less (get_version ex_env ((lsm_init ex_env)\<lparr>location := Some (resolve ex_env ''/linux'')\<rparr>))
       (MINIMUM_SUPPORTED_VERSION ex_env)"
  by code_simp

text \<open>
  C9 as amended: when BOLT or a kernel benchmark is requested and a Linux folder is
  given, the constructor raises one of the three errors about that folder if and only
  if the folder does not exist, has no Makefile, or reports a version older than the
  minimum that the kernel builder supports; it raises them before anything else has
  happened (the trace is empty: no builder is constructed, no stage has started); and an
  orchestrator that is constructed holds that folder as its Linux source.
\<close>

theorem linux_folder_checked_first:
  assumes w: "bolt a \<or> (truthy (pgo a) \<and> filter (contains ''kernel'') (opt_list (pgo a)) \<noteq> [])"
    and lf: "linux_folder a = Some f" "f \<noteq> []"
  shows "((\<exists>err. LLVMStages_init e a src bf kv = (Inl err, []) \<and> is_linux_error err) \<longleftrightarrow>
            \<not> path_exists e (resolve e f) \<or>
            \<not> path_exists e (path_join (resolve e f) ''Makefile'') \<or>
            tuple_less (get_version e ((lsm_init e)\<lparr>location := Some (resolve e f)\<rparr>))
              (MINIMUM_SUPPORTED_VERSION e)) \<and>
         (\<forall>err t. LLVMStages_init e a src bf kv = (Inl err, t) \<and> is_linux_error err \<longrightarrow> t = []) \<and>
         (\<forall>s0 t. LLVMStages_init e a src bf kv = (Inr s0, t) \<longrightarrow>
            lsm s0 = Some ((lsm_init e)\<lparr>location := Some (resolve e f)\<rparr>))"
proof -
  let ?bad = "\<not> path_exists e (resolve e f) \<or>
            \<not> path_exists e (path_join (resolve e f) ''Makefile'') \<or>
            tuple_less (get_version e ((lsm_init e)\<lparr>location := Some (resolve e f)\<rparr>))
              (MINIMUM_SUPPORTED_VERSION e)"
  let ?l = "(lsm_init e)\<lparr>location := Some (resolve e f)\<rparr>"
  note pl = prepare_linux_given[OF w lf, of e src kv]
  have bad: "\<exists>err. LLVMStages_init e a src bf kv = (Inl err, []) \<and> is_linux_error err" if ?bad
    using that pl by (auto simp: LLVMStages_init_def)
  have good: "prepare_linux e a src kv = (Inr (Some ?l), [])" if "\<not> ?bad"
    using that pl by auto
  have 1: "(\<exists>err. LLVMStages_init e a src bf kv = (Inl err, []) \<and> is_linux_error err) \<longleftrightarrow> ?bad"
    using bad good init_not_linux_error[of e a src kv "Some ?l" "[]" bf] by blast
  have 2: "\<forall>err t. LLVMStages_init e a src bf kv = (Inl err, t) \<and> is_linux_error err \<longrightarrow> t = []"
    using bad good init_not_linux_error[of e a src kv "Some ?l" "[]" bf] by (metis prod.inject)
  have 3: "\<forall>s0 t. LLVMStages_init e a src bf kv = (Inr s0, t) \<longrightarrow> lsm s0 = Some ?l"
  proof (intro allI impI)
    fix s0 t assume i: "LLVMStages_init e a src bf kv = (Inr s0, t)"
    have "\<not> ?bad"
      using bad i by auto
    then have "prepare_linux e a src kv = (Inr (Some ?l), [])"
      by (rule good)
    then show "lsm s0 = Some ?l"
      using i by (auto simp: LLVMStages_init_def bind_def split: prod.splits sum.splits)
  qed
  show ?thesis
    using 1 2 3 by blast
qed

theorem C9_witness:
  "bolt (ex_args\<lparr>bolt := True, linux_folder := Some ''/missing''\<rparr>) \<and>
   linux_folder (ex_args\<lparr>bolt := True, linux_folder := Some ''/missing''\<rparr>) = Some ''/missing'' \<and>
   \<not> path_exists ex_env (resolve ex_env ''/missing'') \<and>
   (\<exists>err. LLVMStages_init ex_env (ex_args\<lparr>bolt := True, linux_folder := Some ''/missing''\<rparr>)
             ''/src'' ''/b'' DEFAULT_KERNEL_FOR_PGO = (Inl err, []) \<and> is_linux_error err)"
proof -
  let ?a = "ex_args\<lparr>bolt := True, linux_folder := Some ''/missing''\<rparr>"
  have b: "bolt ?a \<or> (truthy (pgo ?a) \<and> filter (contains ''kernel'') (opt_list (pgo ?a)) \<noteq> [])"
    by simp
  have l: "linux_folder ?a = Some ''/missing''" "''/missing'' \<noteq> []"
    by simp_all
  have p: "\<not> path_exists ex_env (resolve ex_env ''/missing'')"
    by (simp add: ex_env_def)
  show ?thesis
    using p linux_folder_checked_first[OF b l, of ex_env "''/src''" "''/b''" DEFAULT_KERNEL_FOR_PGO]
    by simp
qed

subsection \<open>C10: \<open>--cspgo\<close> without \<open>--pgo\<close>\<close>

text \<open>
  C10: without PGO benchmarks the run with \<open>--cspgo\<close> is the run without it, result and
  trace: no instrumentation or profiling stage of either sort is invoked, no instrumented
  builder is constructed, and once the orchestrator is constructed the script ends
  normally or with \<open>sys.exit(0)\<close>.
\<close>

theorem cspgo_without_pgo_is_ignored:
  assumes "\<not> truthy (pgo a)"
  shows "build_llvm e (a\<lparr>cspgo := True\<rparr>) tc = build_llvm e (a\<lparr>cspgo := False\<rparr>) tc \<and>
         PrintHeader ''Building LLVM (instrumented)'' \<notin> set (snd (build_llvm e (a\<lparr>cspgo := True\<rparr>) tc)) \<and>
         PrintHeader ''Generating PGO profiles'' \<notin> set (snd (build_llvm e (a\<lparr>cspgo := True\<rparr>) tc)) \<and>
         (\<forall>k. Construct k \<in> set (snd (build_llvm e (a\<lparr>cspgo := True\<rparr>) tc)) \<longrightarrow>
              \<not> is_cspgo_kind k \<and> \<not> is_plain_instrumented_kind k) \<and>
         (\<forall>s0 t0. LLVMStages_init e (a\<lparr>cspgo := True\<rparr>) src bf kv = (Inr s0, t0) \<longrightarrow>
              fst (run_stages e s0) = Inr () \<or> fst (run_stages e s0) = Inl (SystemExit 0))"
proof -
  let ?a = "a\<lparr>cspgo := True\<rparr>"
  have p: "\<not> truthy (pgo ?a)"
    using assms by simp
  have eq: "build_llvm e ?a tc = build_llvm e (a\<lparr>cspgo := False\<rparr>) tc"
    using build_llvm_set_cspgo[OF assms] by simp
  have all: "\<forall>ev \<in> set (snd (build_llvm e ?a tc)). no_pgo_event ev"
  proof (rule ok_build_llvm)
    fix ev assume "builder_of ev = None" "\<not> is_stage_header ev" "default_construct ev"
    then show "no_pgo_event ev"
      by (cases ev) (auto simp: no_pgo_event_def stage_titles_def)
  next
    fix s0
    assume i: "fst (LLVMStages_init e ?a (path_join tc ''src'')
             (if truthy (build_folder ?a) then resolve e (opt_list (build_folder ?a))
              else path_join tc ''build/llvm'') DEFAULT_KERNEL_FOR_PGO) = Inr s0"
    have "\<not> truthy (pgo (args s0))"
      using p init_Inr(1)[OF i] by simp
    then show "ok no_pgo_event (\<lambda>u. True) (run_stages e s0)"
      using no_pgo_run_stages[of s0 e] by (simp add: ok_def)
  qed
  have r: "fst (run_stages e s0) = Inr () \<or> fst (run_stages e s0) = Inl (SystemExit 0)"
    if "LLVMStages_init e ?a src bf kv = (Inr s0, t0)" for s0 t0
  proof -
    have "fst (LLVMStages_init e ?a src bf kv) = Inr s0"
      using that by simp
    then have "\<not> truthy (pgo (args s0))"
      using p init_Inr(1) by simp
    then show ?thesis
      using no_pgo_run_stages[of s0 e] by simp
  qed
  have 1: "PrintHeader ''Building LLVM (instrumented)'' \<notin> set (snd (build_llvm e ?a tc))"
    using all by (auto simp: no_pgo_event_def)
  have 2: "PrintHeader ''Generating PGO profiles'' \<notin> set (snd (build_llvm e ?a tc))"
    using all by (auto simp: no_pgo_event_def)
  have 3: "\<forall>k. Construct k \<in> set (snd (build_llvm e ?a tc)) \<longrightarrow>
              \<not> is_cspgo_kind k \<and> \<not> is_plain_instrumented_kind k"
    using all unfolding no_pgo_event_def by blast
  show ?thesis
    using eq 1 2 3 r by blast
qed

theorem C10_witness:
  "\<not> truthy (pgo ex_args) \<and>
   build_llvm ex_env (ex_args\<lparr>cspgo := True\<rparr>) ''/tc'' =
     build_llvm ex_env (ex_args\<lparr>cspgo := False\<rparr>) ''/tc'' \<and>
   PrintHeader ''Building LLVM (instrumented)'' \<notin>
     set (snd (build_llvm ex_env (ex_args\<lparr>cspgo := True\<rparr>) ''/tc'')) \<and>
   PrintHeader ''Generating PGO profiles'' \<notin>
     set (snd (build_llvm ex_env (ex_args\<lparr>cspgo := True\<rparr>) ''/tc''))"
proof -
  have p: "\<not> truthy (pgo ex_args)"
    by (simp add: ex_args_def)
  show ?thesis
    using p cspgo_without_pgo_is_ignored[OF p, of ex_env "''/tc''"] by blast
qed

end
